theory Spec2Isabelle
  imports Main "HOL-Library.Word" "HOL-Library.Sublist"
begin

section \<open>Native calls, errors and the world\<close>

text \<open>
  The unit \<^verbatim>\<open>renderer/gl/glContext.cc\<close> is a sequence of calls into native libraries
  (GL, GLFW, EGL, GLX/Xlib, CGL, the C library). The embedding records every such call
  in a trace, in program order, and takes the value the native side returns from an
  environment record, one field per call site. Native handles and pointers are numbers;
  \<open>0\<close> is the null pointer and every \<^verbatim>\<open>EGL_NO_*\<close> sentinel.
\<close>

type_synonym handle = nat

abbreviation (input) NULL :: handle where "NULL \<equiv> 0"
abbreviation (input) EGL_NO_SURFACE :: handle where "EGL_NO_SURFACE \<equiv> 0"

text \<open>The value of \<^verbatim>\<open>EGL_SUCCESS\<close> in the EGL headers.\<close>

definition EGL_SUCCESS :: int where
  "EGL_SUCCESS = 0x3000"

text \<open>The value of \<^verbatim>\<open>kCGLNoError\<close> in the CGL headers.\<close>

definition kCGLNoError :: int where
  "kCGLNoError = 0"

datatype gl_enum = GL_VERSION | GL_SHADING_LANGUAGE_VERSION | GL_VENDOR | GL_RENDERER

datatype glfw_hint =
    GLFW_CONTEXT_VERSION_MAJOR | GLFW_CONTEXT_VERSION_MINOR | GLFW_OPENGL_PROFILE
  | GLFW_OPENGL_FORWARD_COMPAT | GLFW_OPENGL_DEBUG_CONTEXT | GLFW_RESIZABLE

datatype glfw_value = hint_int int | GLFW_OPENGL_CORE_PROFILE | GL_TRUE | GL_FALSE | hint_true

text \<open>
  One constructor per native function the unit calls, with the arguments that matter.
  \<open>fetch_add_NUM_EGLCONTEXT_ALIVE\<close> is the atomic increment of the process-wide counter;
  \<open>sys_open n\<close> is \<^verbatim>\<open>open("/dev/nvidia<n>", O_RDONLY)\<close> and \<open>sys_close fd\<close> is
  \<^verbatim>\<open>close(fd)\<close>.
\<close>

datatype action =
    fetch_add_NUM_EGLCONTEXT_ALIVE
  | glViewport int int int int
  | glGetString gl_enum
  | glfwInit
  | glfwWindowHint glfw_hint glfw_value
  | glfwCreateWindow int int
  | glfwMakeContextCurrent handle
  | glfwTerminate
  | eglGetProcAddress string
  | eglQueryDevicesEXT nat
  | sys_open int
  | sys_close int
  | eglGetPlatformDisplayEXT handle
  | eglGetError
  | eglInitialize handle
  | eglChooseConfig handle
  | eglBindAPI
  | eglCreateContext handle handle
  | eglMakeCurrent handle handle handle handle
  | eglDestroyContext handle handle
  | eglTerminate handle
  | XOpenDisplay
  | glXChooseFBConfig handle
  | glXGetProcAddressARB string
  | glXCreateContextAttribsARB handle handle
  | glXCreatePbuffer handle handle
  | XFree
  | XSync handle
  | glXMakeContextCurrent handle handle handle handle
  | glXDestroyContext handle handle
  | glXDestroyPbuffer handle handle
  | XCloseDisplay handle
  | CGLChoosePixelFormat
  | CGLCreateContext handle
  | CGLDestroyPixelFormat handle
  | CGLSetCurrentContext handle
  | CGLDestroyContext handle

text \<open>
  What \<^verbatim>\<open>operator<<\<close> puts into \<^verbatim>\<open>cerr\<close>: a string, a number, or \<^verbatim>\<open>endl\<close>.
\<close>

datatype cerr_item = Str string | Num int | Endl

text \<open>
  Operations whose behaviour C++ leaves undefined; the model stops there.
\<close>

datatype undefined_op =
    vector_index_out_of_range int nat
  | array_index_out_of_range int nat
  | null_pointer_dereference
  | null_function_call
  | null_string_output

text \<open>
  \<open>error_exit fmt args\<close> is the process exit of \<^verbatim>\<open>error_exit\<close>; the message is kept as
  the format string of \<^verbatim>\<open>ssprintf\<close> with its arguments, unformatted (a message without
  arguments has none).
\<close>

datatype error =
    error_exit string "int list"
  | assertion_failed
  | undefined_behaviour undefined_op

record world =
  NUM_EGLCONTEXT_ALIVE :: "32 word"
  trace :: "action list"
  cerr :: "cerr_item list"

type_synonym 'a prog = "world \<Rightarrow> (error + 'a) \<times> world"

definition ret :: "'a \<Rightarrow> 'a prog" where
  "ret x s = (Inr x, s)"

definition fail :: "error \<Rightarrow> 'a prog" where
  "fail e s = (Inl e, s)"

text \<open>Sequencing: the first failure ends the run, as the process exit does.\<close>

definition seq :: "'a prog \<Rightarrow> ('a \<Rightarrow> 'b prog) \<Rightarrow> 'b prog" where
  "seq m f s = (case m s of (Inl e, s') \<Rightarrow> (Inl e, s') | (Inr x, s') \<Rightarrow> f x s')"

text \<open>\<open>native a r\<close>: the native call \<open>a\<close> is made and returns \<open>r\<close>.\<close>

definition native :: "action \<Rightarrow> 'a \<Rightarrow> 'a prog" where
  "native a r s = (Inr r, s\<lparr>trace := trace s @ [a]\<rparr>)"

definition cerr_put :: "cerr_item list \<Rightarrow> unit prog" where
  "cerr_put items s = (Inr (), s\<lparr>cerr := cerr s @ items\<rparr>)"

text \<open>
  Modelled from the spec: \<^verbatim>\<open>m_assert\<close> of \<^verbatim>\<open>lib/debugutils.hh\<close>, which is not among the
  sources; the spec has the diagnostics guarded by an assertion that a version string
  is retrievable.
\<close>

definition m_assert :: "bool \<Rightarrow> unit prog" where
  "m_assert b = (if b then ret () else fail assertion_failed)"

section \<open>Geometry and the context base\<close>

record Geometry =
  w :: int
  h :: int

text \<open>\<^verbatim>\<open>GLContext::init\<close>\<close>

definition init :: "Geometry \<Rightarrow> unit prog" where
  "init win_size = native (glViewport 0 0 (w win_size) (h win_size)) ()"

text \<open>
  \<^verbatim>\<open>GLContext::printInfo\<close>. \<open>gl_string\<close> is what \<^verbatim>\<open>glGetString\<close> returns for each name
  (\<open>None\<close> is the null pointer, returned when no context is current).
\<close>

definition cerr_line :: "string \<Rightarrow> string option \<Rightarrow> unit prog" where
  "cerr_line label str =
     (case str of
        None \<Rightarrow> seq (cerr_put [Str label]) (\<lambda>_. fail (undefined_behaviour null_string_output))
      | Some v \<Rightarrow> cerr_put [Str label, Str v, Endl])"

definition printInfo :: "(gl_enum \<Rightarrow> string option) \<Rightarrow> unit prog" where
  "printInfo gl_string =
     seq (native (glGetString GL_VERSION) (gl_string GL_VERSION)) (\<lambda>v.
     seq (m_assert (v \<noteq> None)) (\<lambda>_.
     seq (cerr_put [Str ''----------- OpenGL Context Info --------------'', Endl]) (\<lambda>_.
     seq (native (glGetString GL_VERSION) (gl_string GL_VERSION)) (\<lambda>v.
     seq (cerr_line ''GL Version: '' v) (\<lambda>_.
     seq (native (glGetString GL_SHADING_LANGUAGE_VERSION) (gl_string GL_SHADING_LANGUAGE_VERSION)) (\<lambda>v.
     seq (cerr_line ''GLSL Version: '' v) (\<lambda>_.
     seq (native (glGetString GL_VENDOR) (gl_string GL_VENDOR)) (\<lambda>v.
     seq (cerr_line ''Vendor: '' v) (\<lambda>_.
     seq (native (glGetString GL_RENDERER) (gl_string GL_RENDERER)) (\<lambda>v.
     seq (cerr_line ''Renderer: '' v) (\<lambda>_.
     cerr_put [Str ''----------------------------------------------'', Endl])))))))))))"

section \<open>The device-direct (EGL) backend\<close>

text \<open>
  The environment of one \<^verbatim>\<open>EGLContext\<close> construction. \<open>egl_devices\<close> are the devices the
  EGL implementation enumerates; \<^verbatim>\<open>eglQueryDevicesEXT(max, devs, &n)\<close> stores the first
  \<open>max\<close> of them and their number. \<open>nvidia_open n\<close> is what \<^verbatim>\<open>open("/dev/nvidia<n>",
  O_RDONLY)\<close> returns: a descriptor, or \<open>-1\<close>. For each later EGL call, \<open>r_\<close> is its
  return value and \<open>e_\<close> what \<^verbatim>\<open>eglGetError\<close> reports in the check after it.
  The C \<^verbatim>\<open>int\<close>s are modelled as \<open>int\<close>: the unit only compares them and counts up to
  \<open>MAX_DEVICES\<close>.
\<close>

record egl_env =
  p_eglQueryDevicesEXT :: handle
  p_eglGetPlatformDisplayEXT :: handle
  egl_devices :: "handle list"
  nvidia_open :: "int \<Rightarrow> int"
  r_eglGetPlatformDisplayEXT :: "handle \<Rightarrow> handle"
  r_eglInitialize :: bool
  e_eglInitialize :: int
  r_eglChooseConfig :: bool
  e_eglChooseConfig :: int
  eglCfg_out :: handle
  numConfigs_out :: int
  r_eglBindAPI :: bool
  e_eglBindAPI :: int
  r_eglCreateContext :: handle
  e_eglCreateContext :: int
  r_eglMakeCurrent :: bool
  e_eglMakeCurrent :: int

definition MAX_DEVICES :: nat where
  "MAX_DEVICES = 16"

text \<open>\<^verbatim>\<open>check_nvidia_readable\<close>\<close>

definition check_nvidia_readable :: "egl_env \<Rightarrow> int \<Rightarrow> world \<Rightarrow> bool \<times> world" where
  "check_nvidia_readable env device s =
     (let ret = nvidia_open env device;
          s1 = s\<lparr>trace := trace s @ [sys_open device]\<rparr>
      in if ret = -1 then (False, s1)
         else (True, s1\<lparr>trace := trace s1 @ [sys_close ret]\<rparr>))"

text \<open>
  The loop \<^verbatim>\<open>for (int i = 0; i < numDevices; ++i)\<close> of the constructor, from the
  current \<open>i\<close> and \<open>visible_devices\<close>.
\<close>

function probe_loop :: "egl_env \<Rightarrow> int \<Rightarrow> int \<Rightarrow> int list \<Rightarrow> world \<Rightarrow> int list \<times> world" where
  "probe_loop env i numDevices visible_devices s =
     (if i < numDevices then
        (case check_nvidia_readable env i s of
           (readable, s') \<Rightarrow>
             probe_loop env (i + 1) numDevices
               (if readable then visible_devices @ [i] else visible_devices) s')
      else (visible_devices, s))"
  by pat_completeness auto
termination
  by (relation "measure (\<lambda>(env, i, numDevices, visible_devices, s). nat (numDevices - i))") auto

text \<open>Lines 157-170: the visibility list, by the enumerated count.\<close>

definition find_visible_devices :: "egl_env \<Rightarrow> int \<Rightarrow> int list prog" where
  "find_visible_devices env numDevices =
     (if numDevices > 1 then
        (\<lambda>s. case probe_loop env 0 numDevices [] s of (vis, s') \<Rightarrow> (Inr vis, s'))
      else if numDevices = 1 then ret [0]
      else fail (error_exit ''[EGL] eglQueryDevicesEXT() cannot find any EGL devices!'' []))"

text \<open>
  \<^verbatim>\<open>visible_devices[device]\<close> on the vector and \<^verbatim>\<open>eglDevs[device]\<close> on the array of
  \<open>MAX_DEVICES\<close> handles, of which \<^verbatim>\<open>eglQueryDevicesEXT\<close> filled the first \<open>numDevices\<close>:
  neither is bounds-checked in C++.
\<close>

definition vector_at :: "int list \<Rightarrow> int \<Rightarrow> int prog" where
  "vector_at v i =
     (if 0 \<le> i \<and> i < int (length v) then ret (v ! nat i)
      else fail (undefined_behaviour (vector_index_out_of_range i (length v))))"

definition array_at :: "handle list \<Rightarrow> int \<Rightarrow> handle prog" where
  "array_at a i =
     (if 0 \<le> i \<and> i < int (length a) then ret (a ! nat i)
      else fail (undefined_behaviour (array_index_out_of_range i (length a))))"

text \<open>
  Lines 155-182 of the constructor: enumeration, visibility, the range check and the
  remapping. The result is the array \<^verbatim>\<open>eglDevs\<close> and the value of \<^verbatim>\<open>device\<close> at line 183,
  the physical index.
\<close>

definition resolve_device :: "egl_env \<Rightarrow> int \<Rightarrow> (handle list \<times> int) prog" where
  "resolve_device env device =
     seq (native (eglQueryDevicesEXT MAX_DEVICES) (take MAX_DEVICES (egl_devices env))) (\<lambda>eglDevs.
     let numDevices = int (length eglDevs) in
     seq (find_visible_devices env numDevices) (\<lambda>visible_devices.
     seq (if device \<ge> int (length visible_devices)
          then fail (error_exit ''[EGL] Request device %d but only found %lu devices''
                       [device, int (length visible_devices)])
          else ret ()) (\<lambda>_.
     if int (length visible_devices) = numDevices then
       seq (cerr_put [Str ''[EGL] Detected '', Num numDevices,
                      Str '' devices. Using device '', Num device, Endl]) (\<lambda>_.
       ret (eglDevs, device))
     else
       seq (vector_at visible_devices device) (\<lambda>physical.
       seq (cerr_put [Str ''[EGL] '', Num (int (length visible_devices)), Str '' out of '',
                      Num numDevices, Str '' devices are accessible. Using device '',
                      Num device, Str '' whose physical id is '', Num physical, Str ''.'',
                      Endl]) (\<lambda>_.
       ret (eglDevs, physical))))))"

text \<open>Block 1 of the constructor (lines 143-184); the result is the member \<^verbatim>\<open>eglDpy_\<close>.\<close>

definition egl_get_display :: "egl_env \<Rightarrow> int \<Rightarrow> handle prog" where
  "egl_get_display env device =
     seq (native (eglGetProcAddress ''eglQueryDevicesEXT'') (p_eglQueryDevicesEXT env))
       (\<lambda>eglQueryDevicesEXT_ptr.
     seq (native (eglGetProcAddress ''eglGetPlatformDisplayEXT'') (p_eglGetPlatformDisplayEXT env))
       (\<lambda>eglGetPlatformDisplayEXT_ptr.
     seq (if eglQueryDevicesEXT_ptr = NULL \<or> eglGetPlatformDisplayEXT_ptr = NULL
          then fail (error_exit ''Failed to get function pointer of eglQueryDevicesEXT/eglGetPlatformDisplayEXT! Maybe EGL extensions are unsupported.'' [])
          else ret ()) (\<lambda>_.
     seq (resolve_device env device) (\<lambda>(eglDevs, device).
     seq (array_at eglDevs device) (\<lambda>dev.
     native (eglGetPlatformDisplayEXT dev) (r_eglGetPlatformDisplayEXT env dev))))))"

text \<open>The lambda \<^verbatim>\<open>checkError\<close>; \<open>err\<close> is what \<^verbatim>\<open>eglGetError\<close> returns here.\<close>

definition checkError :: "int \<Rightarrow> bool \<Rightarrow> unit prog" where
  "checkError err succ =
     seq (native eglGetError err) (\<lambda>err.
     if err \<noteq> EGL_SUCCESS then fail (error_exit ''EGL error: %d\<newline>'' [err])
     else if \<not> succ then fail (error_exit ''EGL failed!\<newline>'' [])
     else ret ())"

record EGLContext =
  win_size' :: Geometry
  eglDpy' :: handle
  eglCtx' :: handle

text \<open>\<^verbatim>\<open>EGLContext::EGLContext\<close>\<close>

definition EGLContext_ctor :: "egl_env \<Rightarrow> Geometry \<Rightarrow> int \<Rightarrow> EGLContext prog" where
  "EGLContext_ctor env win_size device =
     seq (\<lambda>s. native fetch_add_NUM_EGLCONTEXT_ALIVE ()
                 (s\<lparr>NUM_EGLCONTEXT_ALIVE := NUM_EGLCONTEXT_ALIVE s + 1\<rparr>)) (\<lambda>_.
     seq (egl_get_display env device) (\<lambda>eglDpy.
     seq (native (eglInitialize eglDpy) (r_eglInitialize env)) (\<lambda>succ.
     seq (if \<not> succ then fail (error_exit ''Failed to initialize EGL display!'' []) else ret ()) (\<lambda>_.
     seq (checkError (e_eglInitialize env) succ) (\<lambda>_.
     seq (native (eglChooseConfig eglDpy) (r_eglChooseConfig env)) (\<lambda>succ.
     seq (checkError (e_eglChooseConfig env) succ) (\<lambda>_.
     seq (if numConfigs_out env \<noteq> 1
          then fail (error_exit ''Cannot create configs for EGL! You driver may not support EGL.'' [])
          else ret ()) (\<lambda>_.
     let eglCfg = eglCfg_out env; eglSurf = EGL_NO_SURFACE in
     seq (native eglBindAPI (r_eglBindAPI env)) (\<lambda>succ.
     seq (checkError (e_eglBindAPI env) succ) (\<lambda>_.
     seq (native (eglCreateContext eglDpy eglCfg) (r_eglCreateContext env)) (\<lambda>eglCtx.
     seq (checkError (e_eglCreateContext env) succ) (\<lambda>_.
     seq (native (eglMakeCurrent eglDpy eglSurf eglSurf eglCtx) (r_eglMakeCurrent env)) (\<lambda>succ.
     seq (if \<not> succ then fail (error_exit ''Failed to make EGL context current!'' []) else ret ()) (\<lambda>_.
     seq (checkError (e_eglMakeCurrent env) succ) (\<lambda>_.
     seq (init win_size) (\<lambda>_.
     ret \<lparr>win_size' = win_size, eglDpy' = eglDpy, eglCtx' = eglCtx\<rparr>))))))))))))))))"

text \<open>
  \<^verbatim>\<open>EGLContext::~EGLContext\<close>. The decrement of the counter is commented out in the
  source, so the destructor leaves the counter alone.
\<close>

definition EGLContext_dtor :: "EGLContext \<Rightarrow> unit prog" where
  "EGLContext_dtor this =
     seq (native (eglDestroyContext (eglDpy' this) (eglCtx' this)) ()) (\<lambda>_.
     native (eglTerminate (eglDpy' this)) ())"

section \<open>The windowed (GLFW) backend\<close>

text \<open>
  \<open>DEBUG\<close> is the build flag of the same name; \<open>r_glfwInit\<close> is what \<^verbatim>\<open>glfwInit\<close>
  returns (the constructor discards it) and \<open>r_glfwCreateWindow\<close> is the window
  \<^verbatim>\<open>glfwCreateWindow\<close> returns.
\<close>

record glfw_env =
  DEBUG :: bool
  r_glfwInit :: bool
  r_glfwCreateWindow :: handle

record GLFWContext =
  glfw_win_size' :: Geometry
  window' :: handle

text \<open>\<^verbatim>\<open>GLFWContext::GLFWContext\<close>\<close>

definition GLFWContext_ctor :: "glfw_env \<Rightarrow> Geometry \<Rightarrow> bool \<Rightarrow> GLFWContext prog" where
  "GLFWContext_ctor env win_size core =
     seq (native glfwInit (r_glfwInit env)) (\<lambda>_.
     seq (if core then
            seq (native (glfwWindowHint GLFW_CONTEXT_VERSION_MAJOR (hint_int 3)) ()) (\<lambda>_.
            seq (native (glfwWindowHint GLFW_CONTEXT_VERSION_MINOR (hint_int 3)) ()) (\<lambda>_.
            seq (native (glfwWindowHint GLFW_OPENGL_PROFILE GLFW_OPENGL_CORE_PROFILE) ()) (\<lambda>_.
            seq (native (glfwWindowHint GLFW_OPENGL_FORWARD_COMPAT GL_TRUE) ()) (\<lambda>_.
            if DEBUG env then native (glfwWindowHint GLFW_OPENGL_DEBUG_CONTEXT hint_true) ()
            else ret ()))))
          else ret ()) (\<lambda>_.
     seq (native (glfwWindowHint GLFW_RESIZABLE GL_FALSE) ()) (\<lambda>_.
     seq (native (glfwCreateWindow (w win_size) (h win_size)) (r_glfwCreateWindow env)) (\<lambda>window.
     seq (if window = NULL then fail (error_exit ''Failed to create GLFW window!'' []) else ret ()) (\<lambda>_.
     seq (native (glfwMakeContextCurrent window) ()) (\<lambda>_.
     seq (init win_size) (\<lambda>_.
     ret \<lparr>glfw_win_size' = win_size, window' = window\<rparr>)))))))"

text \<open>\<^verbatim>\<open>GLFWContext::~GLFWContext\<close>\<close>

definition GLFWContext_dtor :: "GLFWContext \<Rightarrow> unit prog" where
  "GLFWContext_dtor this = native glfwTerminate ()"

section \<open>The display-backed (GLX) backend\<close>

text \<open>
  \<open>r_glXChooseFBConfig\<close> is the array \<^verbatim>\<open>glXChooseFBConfig\<close> returns (\<open>None\<close> is the null
  pointer); \<open>r_glXGetProcAddressARB\<close> is the function pointer looked up by name.
\<close>

record glx_env =
  r_XOpenDisplay :: handle
  r_glXChooseFBConfig :: "handle list option"
  r_glXGetProcAddressARB :: handle
  r_glXCreateContextAttribsARB :: handle
  r_glXCreatePbuffer :: handle
  r_glXMakeContextCurrent :: bool

record GLXHeadlessContext =
  glx_win_size' :: Geometry
  dpy' :: handle
  context' :: handle
  pbuffer' :: handle

text \<open>\<^verbatim>\<open>fbc[0]\<close>, which the source reads without looking at \<^verbatim>\<open>fbc\<close> or at the count.\<close>

definition fbc_first :: "handle list option \<Rightarrow> handle prog" where
  "fbc_first fbc =
     (case fbc of
        None \<Rightarrow> fail (undefined_behaviour null_pointer_dereference)
      | Some [] \<Rightarrow> fail (undefined_behaviour (array_index_out_of_range 0 0))
      | Some (c # _) \<Rightarrow> ret c)"

text \<open>\<^verbatim>\<open>GLXHeadlessContext::GLXHeadlessContext\<close>\<close>

definition GLXHeadlessContext_ctor :: "glx_env \<Rightarrow> Geometry \<Rightarrow> GLXHeadlessContext prog" where
  "GLXHeadlessContext_ctor env win_size =
     seq (native XOpenDisplay (r_XOpenDisplay env)) (\<lambda>dpy.
     seq (if dpy = NULL then fail (error_exit ''Cannot connect to DISPLAY!'' []) else ret ()) (\<lambda>_.
     seq (native (glXChooseFBConfig dpy) (r_glXChooseFBConfig env)) (\<lambda>fbc.
     seq (native (glXGetProcAddressARB ''glXCreateContextAttribsARB'') (r_glXGetProcAddressARB env))
       (\<lambda>glXCreateContextAttribsARB_ptr.
     seq (fbc_first fbc) (\<lambda>fbc0.
     seq (if glXCreateContextAttribsARB_ptr = NULL
          then fail (undefined_behaviour null_function_call)
          else native (glXCreateContextAttribsARB dpy fbc0) (r_glXCreateContextAttribsARB env))
       (\<lambda>context.
     seq (fbc_first fbc) (\<lambda>fbc0.
     seq (native (glXCreatePbuffer dpy fbc0) (r_glXCreatePbuffer env)) (\<lambda>pbuffer.
     seq (native XFree ()) (\<lambda>_.
     seq (native (XSync dpy) ()) (\<lambda>_.
     seq (native (glXMakeContextCurrent dpy pbuffer pbuffer context) (r_glXMakeContextCurrent env))
       (\<lambda>made_current.
     seq (if \<not> made_current then fail (error_exit ''Cannot create GLX context!'' []) else ret ()) (\<lambda>_.
     seq (init win_size) (\<lambda>_.
     ret \<lparr>glx_win_size' = win_size, dpy' = dpy, context' = context, pbuffer' = pbuffer\<rparr>
     )))))))))))))"

text \<open>\<^verbatim>\<open>GLXHeadlessContext::~GLXHeadlessContext\<close>\<close>

definition GLXHeadlessContext_dtor :: "GLXHeadlessContext \<Rightarrow> unit prog" where
  "GLXHeadlessContext_dtor this =
     seq (native (glXMakeContextCurrent (dpy' this) NULL NULL NULL) ()) (\<lambda>_.
     seq (native (glXDestroyContext (dpy' this) (context' this)) ()) (\<lambda>_.
     seq (native (glXDestroyPbuffer (dpy' this) (pbuffer' this)) ()) (\<lambda>_.
     native (XCloseDisplay (dpy' this)) ())))"

section \<open>The native macOS (CGL) backend\<close>

text \<open>
  \<open>r_\<close> is the \<^verbatim>\<open>CGLError\<close> each call returns; \<open>pix_out\<close> and \<open>context_out\<close> are the
  objects stored through the out-parameters.
\<close>

record cgl_env =
  r_CGLChoosePixelFormat :: int
  pix_out :: handle
  r_CGLCreateContext :: int
  context_out :: handle
  r_CGLSetCurrentContext :: int

record CGLHeadlessContext =
  cgl_win_size' :: Geometry
  cgl_context' :: handle

text \<open>The lambda \<^verbatim>\<open>checkError\<close> of the CGL constructor.\<close>

definition cgl_checkError :: "int \<Rightarrow> unit prog" where
  "cgl_checkError err =
     (if err = kCGLNoError then ret ()
      else fail (error_exit ''Error %d when creating CGL Context'' [err]))"

text \<open>\<^verbatim>\<open>CGLHeadlessContext::CGLHeadlessContext\<close>\<close>

definition CGLHeadlessContext_ctor :: "cgl_env \<Rightarrow> Geometry \<Rightarrow> CGLHeadlessContext prog" where
  "CGLHeadlessContext_ctor env win_size =
     seq (native CGLChoosePixelFormat (r_CGLChoosePixelFormat env)) (\<lambda>err.
     seq (cgl_checkError err) (\<lambda>_.
     let pix = pix_out env in
     seq (native (CGLCreateContext pix) (r_CGLCreateContext env)) (\<lambda>err.
     seq (cgl_checkError err) (\<lambda>_.
     let context = context_out env in
     seq (native (CGLDestroyPixelFormat pix) ()) (\<lambda>_.
     seq (native (CGLSetCurrentContext context) (r_CGLSetCurrentContext env)) (\<lambda>err.
     seq (cgl_checkError err) (\<lambda>_.
     seq (init win_size) (\<lambda>_.
     ret \<lparr>cgl_win_size' = win_size, cgl_context' = context\<rparr>))))))))"

text \<open>\<^verbatim>\<open>CGLHeadlessContext::~CGLHeadlessContext\<close>\<close>

definition CGLHeadlessContext_dtor :: "CGLHeadlessContext \<Rightarrow> unit prog" where
  "CGLHeadlessContext_dtor this =
     seq (native (CGLSetCurrentContext NULL) kCGLNoError) (\<lambda>_.
     native (CGLDestroyContext (cgl_context' this)) ())"

section \<open>Notions used in the statements\<close>

text \<open>
  The number of devices \<^verbatim>\<open>eglQueryDevicesEXT\<close> reports to the constructor, and the
  visibility list the constructor builds from it when there is at least one device.
\<close>

definition numDevices_of :: "egl_env \<Rightarrow> int" where
  "numDevices_of env = int (length (take MAX_DEVICES (egl_devices env)))"

definition visible_devices_of :: "egl_env \<Rightarrow> int list" where
  "visible_devices_of env =
     (if numDevices_of env > 1
      then filter (\<lambda>k. nvidia_open env k \<noteq> -1) [0..numDevices_of env - 1]
      else [0])"

text \<open>A fresh process, a geometry, and an EGL environment in which every call succeeds.\<close>

definition start :: world where
  "start = \<lparr>NUM_EGLCONTEXT_ALIVE = 0, trace = [], cerr = []\<rparr>"

definition vga :: Geometry where
  "vga = \<lparr>w = 640, h = 480\<rparr>"

definition egl_env_ok :: "handle list \<Rightarrow> (int \<Rightarrow> int) \<Rightarrow> egl_env" where
  "egl_env_ok devs opn =
     \<lparr>p_eglQueryDevicesEXT = 1, p_eglGetPlatformDisplayEXT = 2, egl_devices = devs,
      nvidia_open = opn, r_eglGetPlatformDisplayEXT = (\<lambda>d. d + 100),
      r_eglInitialize = True, e_eglInitialize = 0x3000,
      r_eglChooseConfig = True, e_eglChooseConfig = 0x3000, eglCfg_out = 5, numConfigs_out = 1,
      r_eglBindAPI = True, e_eglBindAPI = 0x3000,
      r_eglCreateContext = 6, e_eglCreateContext = 0x3000,
      r_eglMakeCurrent = True, e_eglMakeCurrent = 0x3000\<rparr>"

text \<open>
  Three enumerated devices of which \<^verbatim>\<open>/dev/nvidia1\<close> cannot be opened.
\<close>

definition env_scenario_B :: egl_env where
  "env_scenario_B = egl_env_ok [10, 11, 12] (\<lambda>k. if k = 1 then -1 else 3)"

text \<open>
  The outcome of block 1 of the EGL constructor; it does not depend on the world it
  starts in (lemma \<open>egl_get_display_result\<close>).
\<close>

definition egl_display_result :: "egl_env \<Rightarrow> int \<Rightarrow> error + handle" where
  "egl_display_result env device = fst (egl_get_display env device start)"

text \<open>
  A program that leaves the counter alone and only adds calls at the end of the trace.
\<close>

definition only_appends :: "'a prog \<Rightarrow> bool" where
  "only_appends p \<longleftrightarrow>
     (\<forall>s. NUM_EGLCONTEXT_ALIVE (snd (p s)) = NUM_EGLCONTEXT_ALIVE s \<and>
          prefix (trace s) (trace (snd (p s))))"

text \<open>Further EGL environments: no device; one device; two devices, none readable.\<close>

definition env_no_devices :: egl_env where
  "env_no_devices = egl_env_ok [] (\<lambda>k. 3)"

definition env_scenario_A :: egl_env where
  "env_scenario_A = egl_env_ok [10] (\<lambda>k. -1)"

definition env_hidden :: egl_env where
  "env_hidden = egl_env_ok [10, 11] (\<lambda>k. -1)"

definition env_scenario_C :: egl_env where
  "env_scenario_C = (egl_env_ok [10] (\<lambda>k. 3))\<lparr>numConfigs_out := 2\<rparr>"

text \<open>
  The EGL constructor after its first statement, the increment of the counter
  (lemma \<open>EGLContext_ctor_split\<close>).
\<close>

definition egl_after_increment :: "egl_env \<Rightarrow> Geometry \<Rightarrow> int \<Rightarrow> EGLContext prog" where
  "egl_after_increment env win_size device =
     seq (egl_get_display env device) (\<lambda>eglDpy.
     seq (native (eglInitialize eglDpy) (r_eglInitialize env)) (\<lambda>succ.
     seq (if \<not> succ then fail (error_exit ''Failed to initialize EGL display!'' []) else ret ()) (\<lambda>_.
     seq (checkError (e_eglInitialize env) succ) (\<lambda>_.
     seq (native (eglChooseConfig eglDpy) (r_eglChooseConfig env)) (\<lambda>succ.
     seq (checkError (e_eglChooseConfig env) succ) (\<lambda>_.
     seq (if numConfigs_out env \<noteq> 1
          then fail (error_exit ''Cannot create configs for EGL! You driver may not support EGL.'' [])
          else ret ()) (\<lambda>_.
     let eglCfg = eglCfg_out env; eglSurf = EGL_NO_SURFACE in
     seq (native eglBindAPI (r_eglBindAPI env)) (\<lambda>succ.
     seq (checkError (e_eglBindAPI env) succ) (\<lambda>_.
     seq (native (eglCreateContext eglDpy eglCfg) (r_eglCreateContext env)) (\<lambda>eglCtx.
     seq (checkError (e_eglCreateContext env) succ) (\<lambda>_.
     seq (native (eglMakeCurrent eglDpy eglSurf eglSurf eglCtx) (r_eglMakeCurrent env)) (\<lambda>succ.
     seq (if \<not> succ then fail (error_exit ''Failed to make EGL context current!'' []) else ret ()) (\<lambda>_.
     seq (checkError (e_eglMakeCurrent env) succ) (\<lambda>_.
     seq (init win_size) (\<lambda>_.
     ret \<lparr>win_size' = win_size, eglDpy' = eglDpy, eglCtx' = eglCtx\<rparr>)))))))))))))))"

section \<open>Construction and teardown as acquisition and release\<close>

text \<open>
  What a native call sets up and what a native call tears down. Making a context current
  sets up \<open>Current\<close>; the same call with a null context clears it.
\<close>

datatype resource =
  Library | Window | Display | Config_list | Pixel_format | Context | Drawable | Current

fun acquires :: "action \<Rightarrow> resource option" where
  "acquires glfwInit = Some Library"
| "acquires (glfwCreateWindow _ _) = Some Window"
| "acquires (glfwMakeContextCurrent _) = Some Current"
| "acquires (eglInitialize _) = Some Display"
| "acquires (eglCreateContext _ _) = Some Context"
| "acquires (eglMakeCurrent _ _ _ c) = (if c = NULL then None else Some Current)"
| "acquires XOpenDisplay = Some Display"
| "acquires (glXChooseFBConfig _) = Some Config_list"
| "acquires (glXCreateContextAttribsARB _ _) = Some Context"
| "acquires (glXCreatePbuffer _ _) = Some Drawable"
| "acquires (glXMakeContextCurrent _ _ _ c) = (if c = NULL then None else Some Current)"
| "acquires CGLChoosePixelFormat = Some Pixel_format"
| "acquires (CGLCreateContext _) = Some Context"
| "acquires (CGLSetCurrentContext c) = (if c = NULL then None else Some Current)"
| "acquires _ = None"

fun releases :: "action \<Rightarrow> resource option" where
  "releases glfwTerminate = Some Library"
| "releases (eglMakeCurrent _ _ _ c) = (if c = NULL then Some Current else None)"
| "releases (eglDestroyContext _ _) = Some Context"
| "releases (eglTerminate _) = Some Display"
| "releases XFree = Some Config_list"
| "releases (glXMakeContextCurrent _ _ _ c) = (if c = NULL then Some Current else None)"
| "releases (glXDestroyContext _ _) = Some Context"
| "releases (glXDestroyPbuffer _ _) = Some Drawable"
| "releases (XCloseDisplay _) = Some Display"
| "releases (CGLDestroyPixelFormat _) = Some Pixel_format"
| "releases (CGLSetCurrentContext c) = (if c = NULL then Some Current else None)"
| "releases (CGLDestroyContext _) = Some Context"
| "releases _ = None"

text \<open>
  The resources still held after a sequence of calls, in the order they were set up,
  and the order in which a sequence of calls tears resources down.
\<close>

fun held :: "action list \<Rightarrow> resource list \<Rightarrow> resource list" where
  "held [] rs = rs"
| "held (a # as) rs =
     held as (case releases a of
                Some r \<Rightarrow> remove1 r rs
              | None \<Rightarrow> (case acquires a of Some r \<Rightarrow> rs @ [r] | None \<Rightarrow> rs))"

definition teardown_order :: "action list \<Rightarrow> resource list" where
  "teardown_order calls = List.map_filter releases calls"

text \<open>
  Teardown in exactly the reverse order of construction: the destruction tears down
  everything the construction left set up, last set up first.
\<close>

definition reverse_teardown :: "action list \<Rightarrow> action list \<Rightarrow> bool" where
  "reverse_teardown construction destruction \<longleftrightarrow>
     teardown_order destruction = rev (held construction [])"

text \<open>The calls made between two worlds of one run.\<close>

definition added :: "world \<Rightarrow> world \<Rightarrow> action list" where
  "added s s' = drop (length (trace s)) (trace s')"

text \<open>A call that neither sets up nor tears down; a program that makes only such calls.\<close>

definition neutral :: "action \<Rightarrow> bool" where
  "neutral a \<longleftrightarrow> acquires a = None \<and> releases a = None"

definition appends_neutral :: "'a prog \<Rightarrow> bool" where
  "appends_neutral p \<longleftrightarrow>
     (\<forall>s. \<exists>calls. trace (snd (p s)) = trace s @ calls \<and> list_all neutral calls)"

section \<open>Where a run ends\<close>



definition init_ok :: "egl_env \<Rightarrow> bool" where
  "init_ok env \<longleftrightarrow> r_eglInitialize env \<and> e_eglInitialize env = EGL_SUCCESS"

definition choose_ok :: "egl_env \<Rightarrow> bool" where
  "choose_ok env \<longleftrightarrow> r_eglChooseConfig env \<and> e_eglChooseConfig env = EGL_SUCCESS"

definition bind_ok :: "egl_env \<Rightarrow> bool" where
  "bind_ok env \<longleftrightarrow> r_eglBindAPI env \<and> e_eglBindAPI env = EGL_SUCCESS"

definition make_current_ok :: "egl_env \<Rightarrow> bool" where
  "make_current_ok env \<longleftrightarrow> r_eglMakeCurrent env \<and> e_eglMakeCurrent env = EGL_SUCCESS"

section \<open>Further environments\<close>


text \<open>
  GLX environments: every call succeeds; context creation returns the null context and
  making it current fails.
\<close>

definition glx_env_ok :: glx_env where
  "glx_env_ok =
     \<lparr>r_XOpenDisplay = 1, r_glXChooseFBConfig = Some [7, 8], r_glXGetProcAddressARB = 9,
      r_glXCreateContextAttribsARB = 4, r_glXCreatePbuffer = 3,
      r_glXMakeContextCurrent = True\<rparr>"


definition glfw_env_ok :: glfw_env where
  "glfw_env_ok = \<lparr>DEBUG = False, r_glfwInit = True, r_glfwCreateWindow = 1\<rparr>"



definition cgl_env_ok :: cgl_env where
  "cgl_env_ok =
     \<lparr>r_CGLChoosePixelFormat = 0, pix_out = 2, r_CGLCreateContext = 0, context_out = 4,
      r_CGLSetCurrentContext = 0\<rparr>"


text \<open>The strings of a current context.\<close>

fun gl_strings :: "gl_enum \<Rightarrow> string option" where
  "gl_strings GL_VERSION = Some ''4.5.0''"
| "gl_strings GL_SHADING_LANGUAGE_VERSION = Some ''4.50''"
| "gl_strings GL_VENDOR = Some ''NVIDIA Corporation''"
| "gl_strings GL_RENDERER = Some ''Tesla''"

section \<open>Running programs\<close>

lemmas prog_defs = seq_def ret_def fail_def native_def cerr_put_def

lemma fst_seq:
  "fst (seq m f s) = (case fst (m s) of Inl e \<Rightarrow> Inl e | Inr x \<Rightarrow> fst (f x (snd (m s))))"
  by (simp add: seq_def split: prod.splits sum.splits)

lemma fst_basic:
  "fst (ret x s) = Inr x"
  "fst (fail e s) = Inl e"
  "fst (native a r s) = Inr r"
  "fst (cerr_put items s) = Inr ()"
  by (simp_all add: prog_defs)

section \<open>The probe loop and the visibility list\<close>

declare probe_loop.simps [simp del]

lemma probe_loop_fst:
  "fst (probe_loop env i n vis s) = vis @ filter (\<lambda>k. nvidia_open env k \<noteq> -1) [i..n - 1]"
proof (induction env i n vis s rule: probe_loop.induct)
  case (1 env i n vis s)
  show ?case
  proof (cases "i < n")
    case True
    then have u: "[i..n - 1] = i # [i + 1..n - 1]"
      by (simp add: upto_rec1)
    obtain r s' where c: "check_nvidia_readable env i s = (r, s')"
      by (cases "check_nvidia_readable env i s")
    then have r: "r = (nvidia_open env i \<noteq> -1)"
      by (auto simp: check_nvidia_readable_def Let_def split: if_splits)
    from "1.IH" [OF True c [symmetric]] True c r u show ?thesis
      by (subst probe_loop.simps) simp
  next
    case False
    then show ?thesis by (subst probe_loop.simps) simp
  qed
qed

lemma sorted_filter_upto:
  "sorted_list_of_set {k. i \<le> k \<and> k \<le> j \<and> P k} = filter P [i..j]"
proof -
  have "sorted_list_of_set (set (filter P [i..j])) = filter P [i..j]"
    by (rule sorted_list_of_set.idem_if_sorted_distinct) (simp_all add: sorted_wrt_filter)
  moreover have "set (filter P [i..j]) = {k. i \<le> k \<and> k \<le> j \<and> P k}"
    by auto
  ultimately show ?thesis by simp
qed

lemma find_visible_devices_fst:
  "fst (find_visible_devices env (numDevices_of env) s) =
     (if numDevices_of env \<ge> 1 then Inr (visible_devices_of env)
      else Inl (error_exit ''[EGL] eglQueryDevicesEXT() cannot find any EGL devices!'' []))"
  using probe_loop_fst [of env 0 "numDevices_of env" "[]" s]
  by (auto simp: find_visible_devices_def visible_devices_of_def prog_defs split: prod.splits)

lemma visible_devices_of_set:
  "visible_devices_of env =
     sorted_list_of_set
       (if numDevices_of env > 1
        then {k. 0 \<le> k \<and> k < numDevices_of env \<and> nvidia_open env k \<noteq> -1} else {0})"
proof -
  have "{k. 0 \<le> k \<and> k < numDevices_of env \<and> nvidia_open env k \<noteq> -1}
        = {k. 0 \<le> k \<and> k \<le> numDevices_of env - 1 \<and> nvidia_open env k \<noteq> -1}"
    by auto
  then have "sorted_list_of_set {k. 0 \<le> k \<and> k < numDevices_of env \<and> nvidia_open env k \<noteq> -1}
        = filter (\<lambda>k. nvidia_open env k \<noteq> -1) [0..numDevices_of env - 1]"
    by (simp only: sorted_filter_upto)
  then show ?thesis
    by (simp add: visible_devices_of_def)
qed

lemma resolve_device_fst:
  "fst (resolve_device env device s) =
     (if numDevices_of env < 1
      then Inl (error_exit ''[EGL] eglQueryDevicesEXT() cannot find any EGL devices!'' [])
      else if device \<ge> int (length (visible_devices_of env))
      then Inl (error_exit ''[EGL] Request device %d but only found %lu devices''
                  [device, int (length (visible_devices_of env))])
      else if int (length (visible_devices_of env)) = numDevices_of env
      then Inr (take MAX_DEVICES (egl_devices env), device)
      else if device < 0
      then Inl (undefined_behaviour
                  (vector_index_out_of_range device (length (visible_devices_of env))))
      else Inr (take MAX_DEVICES (egl_devices env), visible_devices_of env ! nat device))"
proof -
  let ?s1 = "s\<lparr>trace := trace s @ [eglQueryDevicesEXT MAX_DEVICES]\<rparr>"
  obtain r s2 where f: "find_visible_devices env (numDevices_of env) ?s1 = (r, s2)"
    by (cases "find_visible_devices env (numDevices_of env) ?s1")
  with find_visible_devices_fst [of env ?s1]
  have r: "r = (if numDevices_of env \<ge> 1 then Inr (visible_devices_of env)
      else Inl (error_exit ''[EGL] eglQueryDevicesEXT() cannot find any EGL devices!'' []))"
    by simp
  show ?thesis
    using f r unfolding numDevices_of_def resolve_device_def
    by (auto simp add: prog_defs vector_at_def Let_def not_le less_Suc_eq
        simp del: length_take take_eq_Nil take_eq_Nil2)
qed

lemma filter_full: "length (filter P xs) = length xs \<Longrightarrow> filter P xs = xs"
  by (metis filter_id_conv length_filter_less less_irrefl)

lemma visible_devices_of_length:
  "1 \<le> numDevices_of env \<Longrightarrow> int (length (visible_devices_of env)) \<le> numDevices_of env"
proof -
  assume n: "1 \<le> numDevices_of env"
  have "length (filter P [0..n - 1]) \<le> nat n" for P and n :: int
    using length_filter_le [of P "[0..n - 1]"] by simp
  from this [of "\<lambda>k. nvidia_open env k \<noteq> -1" "numDevices_of env"] n
  show ?thesis
    by (auto simp add: visible_devices_of_def)
qed

lemma visible_devices_of_full:
  assumes "1 \<le> numDevices_of env" "int (length (visible_devices_of env)) = numDevices_of env"
    "0 \<le> i" "i < numDevices_of env"
  shows "visible_devices_of env ! nat i = i"
proof (cases "numDevices_of env > 1")
  case True
  let ?P = "\<lambda>k. nvidia_open env k \<noteq> -1"
  from True assms(2) have "length (filter ?P [0..numDevices_of env - 1]) = length [0..numDevices_of env - 1]"
    by (simp add: visible_devices_of_def)
  then have "filter ?P [0..numDevices_of env - 1] = [0..numDevices_of env - 1]"
    by (rule filter_full)
  with True have "visible_devices_of env = [0..numDevices_of env - 1]"
    by (simp add: visible_devices_of_def)
  with assms(3,4) show ?thesis by simp
next
  case False
  with assms show ?thesis by (simp add: visible_devices_of_def)
qed

lemma visible_devices_of_card:
  "length (visible_devices_of env) =
     card (if numDevices_of env > 1
        then {k. 0 \<le> k \<and> k < numDevices_of env \<and> nvidia_open env k \<noteq> -1} else {0})"
proof -
  have "finite {k. 0 \<le> k \<and> k < numDevices_of env \<and> nvidia_open env k \<noteq> -1}"
    by (rule finite_subset [of _ "{0..numDevices_of env}"]) auto
  then show ?thesis
    by (simp add: visible_devices_of_set)
qed


lemma visible_devices_of_bounds:
  "k \<in> set (visible_devices_of env) \<Longrightarrow> 1 \<le> numDevices_of env \<Longrightarrow> 0 \<le> k \<and> k < numDevices_of env"
  by (auto simp: visible_devices_of_def split: if_splits)

lemma egl_get_display_fst:
  "fst (egl_get_display env device s) =
     (if p_eglQueryDevicesEXT env = NULL \<or> p_eglGetPlatformDisplayEXT env = NULL
      then Inl (error_exit ''Failed to get function pointer of eglQueryDevicesEXT/eglGetPlatformDisplayEXT! Maybe EGL extensions are unsupported.'' [])
      else if numDevices_of env < 1
      then Inl (error_exit ''[EGL] eglQueryDevicesEXT() cannot find any EGL devices!'' [])
      else if device \<ge> int (length (visible_devices_of env))
      then Inl (error_exit ''[EGL] Request device %d but only found %lu devices''
                  [device, int (length (visible_devices_of env))])
      else if device < 0
      then Inl (undefined_behaviour
                 (if int (length (visible_devices_of env)) = numDevices_of env
                  then array_index_out_of_range device (length (take MAX_DEVICES (egl_devices env)))
                  else vector_index_out_of_range device (length (visible_devices_of env))))
      else Inr (r_eglGetPlatformDisplayEXT env
                  (take MAX_DEVICES (egl_devices env) !
                     nat (if int (length (visible_devices_of env)) = numDevices_of env
                          then device else visible_devices_of env ! nat device))))"
proof -
  have in_range: "0 \<le> visible_devices_of env ! nat device \<and>
      visible_devices_of env ! nat device < int (length (take MAX_DEVICES (egl_devices env)))"
    if "1 \<le> numDevices_of env" "0 \<le> device" "device < int (length (visible_devices_of env))"
  proof -
    from that have "visible_devices_of env ! nat device \<in> set (visible_devices_of env)"
      by simp
    from visible_devices_of_bounds [OF this that(1)] show ?thesis
      by (simp only: numDevices_of_def)
  qed
  have full: "device < int (length (take MAX_DEVICES (egl_devices env)))"
    if "device < int (length (visible_devices_of env))"
       "int (length (visible_devices_of env)) = numDevices_of env"
    using that by (simp only: numDevices_of_def)
  show ?thesis
    using in_range full
    by (simp add: egl_get_display_def fst_seq fst_basic resolve_device_fst array_at_def
        split: prod.splits del: length_take)
qed

section \<open>Frame: the counter and the trace\<close>

lemma egl_get_display_result:
  "fst (egl_get_display env device s) = egl_display_result env device"
  by (simp only: egl_display_result_def egl_get_display_fst)

lemma only_appendsI:
  "(\<And>s. NUM_EGLCONTEXT_ALIVE (snd (p s)) = NUM_EGLCONTEXT_ALIVE s) \<Longrightarrow>
   (\<And>s. prefix (trace s) (trace (snd (p s)))) \<Longrightarrow> only_appends p"
  by (simp add: only_appends_def)

lemma only_appends_basic:
  "only_appends (ret x)"
  "only_appends (fail e)"
  "only_appends (native a r)"
  "only_appends (cerr_put items)"
  by (simp_all add: only_appends_def prog_defs)

lemma only_appends_seq:
  assumes "only_appends m" "\<And>x. only_appends (f x)"
  shows "only_appends (seq m f)"
proof (rule only_appendsI)
  fix s
  obtain r s' where m: "m s = (r, s')" by (cases "m s")
  from assms(1) m have m1: "NUM_EGLCONTEXT_ALIVE s' = NUM_EGLCONTEXT_ALIVE s"
    and m2: "prefix (trace s) (trace s')"
    by (auto simp: only_appends_def dest: spec [of _ s])
  show "NUM_EGLCONTEXT_ALIVE (snd (seq m f s)) = NUM_EGLCONTEXT_ALIVE s"
  proof (cases r)
    case (Inl e) with m m1 show ?thesis by (simp add: seq_def)
  next
    case (Inr x)
    from assms(2) [of x] have "NUM_EGLCONTEXT_ALIVE (snd (f x s')) = NUM_EGLCONTEXT_ALIVE s'"
      by (simp add: only_appends_def)
    with Inr m m1 show ?thesis by (simp add: seq_def)
  qed
  show "prefix (trace s) (trace (snd (seq m f s)))"
  proof (cases r)
    case (Inl e) with m m2 show ?thesis by (simp add: seq_def)
  next
    case (Inr x)
    from assms(2) [of x] have "prefix (trace s') (trace (snd (f x s')))"
      by (simp add: only_appends_def)
    with m2 have "prefix (trace s) (trace (snd (f x s')))"
      by (rule prefix_order.trans)
    with Inr m show ?thesis by (simp add: seq_def)
  qed
qed

lemma only_appends_if:
  "only_appends p \<Longrightarrow> only_appends q \<Longrightarrow> only_appends (if b then p else q)"
  by simp

lemma probe_loop_appends:
  "NUM_EGLCONTEXT_ALIVE (snd (probe_loop env i n vis s)) = NUM_EGLCONTEXT_ALIVE s \<and>
   prefix (trace s) (trace (snd (probe_loop env i n vis s)))"
proof (induction env i n vis s rule: probe_loop.induct)
  case (1 env i n vis s)
  show ?case
  proof (cases "i < n")
    case True
    obtain r s' where c: "check_nvidia_readable env i s = (r, s')"
      by (cases "check_nvidia_readable env i s")
    then have f: "NUM_EGLCONTEXT_ALIVE s' = NUM_EGLCONTEXT_ALIVE s \<and> prefix (trace s) (trace s')"
      by (auto simp: check_nvidia_readable_def Let_def split: if_splits)
    from "1.IH" [OF True c [symmetric]] f
    have "NUM_EGLCONTEXT_ALIVE (snd (probe_loop env (i + 1) n (if r then vis @ [i] else vis) s'))
            = NUM_EGLCONTEXT_ALIVE s"
      and "prefix (trace s) (trace (snd (probe_loop env (i + 1) n (if r then vis @ [i] else vis) s')))"
      by (auto intro: prefix_order.trans)
    with True c show ?thesis
      by (subst (1 2) probe_loop.simps) simp
  next
    case False
    then show ?thesis by (subst (1 2) probe_loop.simps) simp
  qed
qed

lemma find_visible_devices_appends: "only_appends (find_visible_devices env n)"
proof (rule only_appendsI)
  fix s
  obtain vis s' where p: "probe_loop env 0 n [] s = (vis, s')"
    by (cases "probe_loop env 0 n [] s")
  with probe_loop_appends [of env 0 n "[]" s]
  have "NUM_EGLCONTEXT_ALIVE s' = NUM_EGLCONTEXT_ALIVE s" "prefix (trace s) (trace s')"
    by simp_all
  with p show "NUM_EGLCONTEXT_ALIVE (snd (find_visible_devices env n s)) = NUM_EGLCONTEXT_ALIVE s"
    and "prefix (trace s) (trace (snd (find_visible_devices env n s)))"
    by (simp_all add: find_visible_devices_def prog_defs)
qed

lemma resolve_device_appends: "only_appends (resolve_device env device)"
  unfolding resolve_device_def Let_def vector_at_def
  by (intro only_appends_seq only_appends_if only_appends_basic find_visible_devices_appends)

lemma egl_get_display_appends: "only_appends (egl_get_display env device)"
  unfolding egl_get_display_def array_at_def
  by (auto intro!: only_appends_seq only_appends_if only_appends_basic resolve_device_appends)

lemma checkError_appends: "only_appends (checkError err succ)"
  unfolding checkError_def
  by (intro only_appends_seq only_appends_if only_appends_basic)

lemma init_appends: "only_appends (init g)"
  by (simp add: init_def only_appends_basic)

section \<open>The outcome of the EGL constructor\<close>

lemma EGLContext_ctor_split:
  "EGLContext_ctor env win_size device s =
     egl_after_increment env win_size device
       (s\<lparr>NUM_EGLCONTEXT_ALIVE := NUM_EGLCONTEXT_ALIVE s + 1,
          trace := trace s @ [fetch_add_NUM_EGLCONTEXT_ALIVE]\<rparr>)"
  unfolding EGLContext_ctor_def egl_after_increment_def
  by (subst seq_def) (simp add: native_def)

lemma egl_after_increment_appends: "only_appends (egl_after_increment env g device)"
  unfolding egl_after_increment_def Let_def
  by (intro only_appends_seq only_appends_if only_appends_basic egl_get_display_appends
      checkError_appends init_appends)

lemma EGLContext_ctor_fst:
  "fst (EGLContext_ctor env g device s) =
     (case egl_display_result env device of
        Inl e \<Rightarrow> Inl e
      | Inr dpy \<Rightarrow>
          if \<not> r_eglInitialize env
          then Inl (error_exit ''Failed to initialize EGL display!'' [])
          else if e_eglInitialize env \<noteq> EGL_SUCCESS
          then Inl (error_exit ''EGL error: %d\<newline>'' [e_eglInitialize env])
          else if e_eglChooseConfig env \<noteq> EGL_SUCCESS
          then Inl (error_exit ''EGL error: %d\<newline>'' [e_eglChooseConfig env])
          else if \<not> r_eglChooseConfig env
          then Inl (error_exit ''EGL failed!\<newline>'' [])
          else if numConfigs_out env \<noteq> 1
          then Inl (error_exit ''Cannot create configs for EGL! You driver may not support EGL.'' [])
          else if e_eglBindAPI env \<noteq> EGL_SUCCESS
          then Inl (error_exit ''EGL error: %d\<newline>'' [e_eglBindAPI env])
          else if \<not> r_eglBindAPI env
          then Inl (error_exit ''EGL failed!\<newline>'' [])
          else if e_eglCreateContext env \<noteq> EGL_SUCCESS
          then Inl (error_exit ''EGL error: %d\<newline>'' [e_eglCreateContext env])
          else if \<not> r_eglMakeCurrent env
          then Inl (error_exit ''Failed to make EGL context current!'' [])
          else if e_eglMakeCurrent env \<noteq> EGL_SUCCESS
          then Inl (error_exit ''EGL error: %d\<newline>'' [e_eglMakeCurrent env])
          else Inr \<lparr>win_size' = g, eglDpy' = dpy, eglCtx' = r_eglCreateContext env\<rparr>)"
  unfolding EGLContext_ctor_split egl_after_increment_def
  by (simp add: fst_seq fst_basic egl_get_display_result checkError_def init_def Let_def
      split: sum.splits)

lemma egl_display_result_cases:
  "egl_display_result env device =
     (if p_eglQueryDevicesEXT env = NULL \<or> p_eglGetPlatformDisplayEXT env = NULL
      then Inl (error_exit ''Failed to get function pointer of eglQueryDevicesEXT/eglGetPlatformDisplayEXT! Maybe EGL extensions are unsupported.'' [])
      else if numDevices_of env < 1
      then Inl (error_exit ''[EGL] eglQueryDevicesEXT() cannot find any EGL devices!'' [])
      else if device \<ge> int (length (visible_devices_of env))
      then Inl (error_exit ''[EGL] Request device %d but only found %lu devices''
                  [device, int (length (visible_devices_of env))])
      else if device < 0
      then Inl (undefined_behaviour
                 (if int (length (visible_devices_of env)) = numDevices_of env
                  then array_index_out_of_range device (length (take MAX_DEVICES (egl_devices env)))
                  else vector_index_out_of_range device (length (visible_devices_of env))))
      else Inr (r_eglGetPlatformDisplayEXT env
                  (take MAX_DEVICES (egl_devices env) !
                     nat (if int (length (visible_devices_of env)) = numDevices_of env
                          then device else visible_devices_of env ! nat device))))"
  by (simp only: egl_display_result_def egl_get_display_fst)

lemma numDevices_of_0: "numDevices_of env < 1 \<longleftrightarrow> egl_devices env = []"
  by (cases "egl_devices env") (simp_all add: numDevices_of_def MAX_DEVICES_def)

lemma numDevices_of_1: "length (egl_devices env) = 1 \<Longrightarrow> numDevices_of env = 1"
  by (simp add: numDevices_of_def MAX_DEVICES_def)

lemma EGLContext_dtor_appends: "only_appends (EGLContext_dtor this)"
  unfolding EGLContext_dtor_def
  by (intro only_appends_seq only_appends_basic)

lemma scenario_A_display:
  "egl_get_display env_scenario_A 0 s =
     (Inr 110, s\<lparr>trace := trace s @ [eglGetProcAddress ''eglQueryDevicesEXT'',
        eglGetProcAddress ''eglGetPlatformDisplayEXT'', eglQueryDevicesEXT 16,
        eglGetPlatformDisplayEXT 10],
        cerr := cerr s @ [Str ''[EGL] Detected '', Num 1, Str '' devices. Using device '',
          Num 0, Endl]\<rparr>)"
  by (simp add: egl_get_display_def resolve_device_def find_visible_devices_def array_at_def
      prog_defs env_scenario_A_def egl_env_ok_def MAX_DEVICES_def)

lemma egl_display_result_not_config:
  "egl_display_result env device \<noteq>
     Inl (error_exit ''Cannot create configs for EGL! You driver may not support EGL.'' [])"
  by (simp add: egl_display_result_cases)

lemma visible_devices_of_hidden:
  assumes "1 < numDevices_of env"
    "\<forall>k. 0 \<le> k \<and> k < numDevices_of env \<longrightarrow> nvidia_open env k = -1"
  shows "visible_devices_of env = []"
proof -
  have "filter (\<lambda>k. nvidia_open env k \<noteq> -1) [0..numDevices_of env - 1] = []"
    using assms(2) by (auto simp: filter_empty_conv)
  with assms(1) show ?thesis by (simp add: visible_devices_of_def)
qed

lemma EGLContext_ctor_no_devices_iff:
  "fst (EGLContext_ctor env g device s) =
     Inl (error_exit ''[EGL] eglQueryDevicesEXT() cannot find any EGL devices!'' []) \<longleftrightarrow>
   p_eglQueryDevicesEXT env \<noteq> NULL \<and> p_eglGetPlatformDisplayEXT env \<noteq> NULL \<and>
   egl_devices env = []"
proof (cases "egl_display_result env device")
  case (Inl e)
  then show ?thesis
    using numDevices_of_0 [of env]
    by (auto simp add: EGLContext_ctor_fst egl_display_result_cases split: if_splits)
next
  case (Inr dpy)
  then have "\<not> (p_eglQueryDevicesEXT env = NULL \<or> p_eglGetPlatformDisplayEXT env = NULL)"
    "\<not> numDevices_of env < 1"
    by (auto simp add: egl_display_result_cases split: if_splits)
  with Inr numDevices_of_0 [of env] show ?thesis
    by (simp add: EGLContext_ctor_fst)
qed

lemma EGLContext_ctor_after_display:
  assumes "egl_get_display env device
      (s\<lparr>NUM_EGLCONTEXT_ALIVE := NUM_EGLCONTEXT_ALIVE s + 1,
         trace := trace s @ [fetch_add_NUM_EGLCONTEXT_ALIVE]\<rparr>) = (Inr eglDpy, s')"
  shows "EGLContext_ctor env g device s =
     (if \<not> r_eglInitialize env
      then (Inl (error_exit ''Failed to initialize EGL display!'' []),
            s'\<lparr>trace := trace s' @ [eglInitialize eglDpy]\<rparr>)
      else if \<not> init_ok env
      then (Inl (error_exit ''EGL error: %d\<newline>'' [e_eglInitialize env]),
            s'\<lparr>trace := trace s' @ [eglInitialize eglDpy, eglGetError]\<rparr>)
      else if \<not> choose_ok env
      then (Inl (if e_eglChooseConfig env \<noteq> EGL_SUCCESS
                 then error_exit ''EGL error: %d\<newline>'' [e_eglChooseConfig env]
                 else error_exit ''EGL failed!\<newline>'' []),
            s'\<lparr>trace := trace s' @ [eglInitialize eglDpy, eglGetError,
                                    eglChooseConfig eglDpy, eglGetError]\<rparr>)
      else if numConfigs_out env \<noteq> 1
      then (Inl (error_exit ''Cannot create configs for EGL! You driver may not support EGL.'' []),
            s'\<lparr>trace := trace s' @ [eglInitialize eglDpy, eglGetError,
                                    eglChooseConfig eglDpy, eglGetError]\<rparr>)
      else if \<not> bind_ok env
      then (Inl (if e_eglBindAPI env \<noteq> EGL_SUCCESS
                 then error_exit ''EGL error: %d\<newline>'' [e_eglBindAPI env]
                 else error_exit ''EGL failed!\<newline>'' []),
            s'\<lparr>trace := trace s' @ [eglInitialize eglDpy, eglGetError,
                                    eglChooseConfig eglDpy, eglGetError,
                                    eglBindAPI, eglGetError]\<rparr>)
      else if e_eglCreateContext env \<noteq> EGL_SUCCESS
      then (Inl (error_exit ''EGL error: %d\<newline>'' [e_eglCreateContext env]),
            s'\<lparr>trace := trace s' @ [eglInitialize eglDpy, eglGetError,
                                    eglChooseConfig eglDpy, eglGetError,
                                    eglBindAPI, eglGetError,
                                    eglCreateContext eglDpy (eglCfg_out env), eglGetError]\<rparr>)
      else if \<not> r_eglMakeCurrent env
      then (Inl (error_exit ''Failed to make EGL context current!'' []),
            s'\<lparr>trace := trace s' @ [eglInitialize eglDpy, eglGetError,
                                    eglChooseConfig eglDpy, eglGetError,
                                    eglBindAPI, eglGetError,
                                    eglCreateContext eglDpy (eglCfg_out env), eglGetError,
                                    eglMakeCurrent eglDpy EGL_NO_SURFACE EGL_NO_SURFACE
                                      (r_eglCreateContext env)]\<rparr>)
      else if \<not> make_current_ok env
      then (Inl (error_exit ''EGL error: %d\<newline>'' [e_eglMakeCurrent env]),
            s'\<lparr>trace := trace s' @ [eglInitialize eglDpy, eglGetError,
                                    eglChooseConfig eglDpy, eglGetError,
                                    eglBindAPI, eglGetError,
                                    eglCreateContext eglDpy (eglCfg_out env), eglGetError,
                                    eglMakeCurrent eglDpy EGL_NO_SURFACE EGL_NO_SURFACE
                                      (r_eglCreateContext env), eglGetError]\<rparr>)
      else (Inr \<lparr>win_size' = g, eglDpy' = eglDpy, eglCtx' = r_eglCreateContext env\<rparr>,
            s'\<lparr>trace := trace s' @ [eglInitialize eglDpy, eglGetError,
                                    eglChooseConfig eglDpy, eglGetError,
                                    eglBindAPI, eglGetError,
                                    eglCreateContext eglDpy (eglCfg_out env), eglGetError,
                                    eglMakeCurrent eglDpy EGL_NO_SURFACE EGL_NO_SURFACE
                                      (r_eglCreateContext env), eglGetError,
                                    glViewport 0 0 (w g) (h g)]\<rparr>))"
  unfolding EGLContext_ctor_split egl_after_increment_def
  by (simp add: seq_def [of "egl_get_display env device"] assms)
     (simp add: prog_defs checkError_def init_def init_ok_def choose_ok_def bind_ok_def
        make_current_ok_def Let_def)

section \<open>Runs of the other constructors\<close>



section \<open>Resources held after a run\<close>

lemma held_append: "held (xs @ ys) rs = held ys (held xs rs)"
  by (induction xs arbitrary: rs) simp_all

lemma held_neutral: "list_all neutral xs \<Longrightarrow> held xs rs = rs"
  by (induction xs arbitrary: rs) (simp_all add: neutral_def)

lemma appends_neutralI:
  "(\<And>s. \<exists>calls. trace (snd (p s)) = trace s @ calls \<and> list_all neutral calls) \<Longrightarrow>
   appends_neutral p"
  by (simp add: appends_neutral_def)

lemma appends_neutral_basic:
  "appends_neutral (ret x)"
  "appends_neutral (fail e)"
  "appends_neutral (cerr_put items)"
  "neutral a \<Longrightarrow> appends_neutral (native a r)"
  by (simp_all add: appends_neutral_def prog_defs)

lemma appends_neutral_seq:
  assumes "appends_neutral m" "\<And>x. appends_neutral (f x)"
  shows "appends_neutral (seq m f)"
proof (rule appends_neutralI)
  fix s
  obtain r s' where m: "m s = (r, s')" by (cases "m s")
  from assms(1) obtain c1 where c1: "trace (snd (m s)) = trace s @ c1" "list_all neutral c1"
    unfolding appends_neutral_def by blast
  show "\<exists>calls. trace (snd (seq m f s)) = trace s @ calls \<and> list_all neutral calls"
  proof (cases r)
    case (Inl e)
    with m c1 show ?thesis by (auto simp: seq_def)
  next
    case (Inr x)
    from assms(2) [of x] obtain c2
      where c2: "trace (snd (f x s')) = trace s' @ c2" "list_all neutral c2"
      unfolding appends_neutral_def by blast
    from m c1 c2 have "trace (snd (f x s')) = trace s @ (c1 @ c2)" "list_all neutral (c1 @ c2)"
      by simp_all
    with Inr m show ?thesis by (auto simp: seq_def)
  qed
qed

lemma appends_neutral_if:
  "appends_neutral p \<Longrightarrow> appends_neutral q \<Longrightarrow> appends_neutral (if b then p else q)"
  by simp

lemma neutral_calls [simp]:
  "neutral (sys_open n)" "neutral (sys_close fd)" "neutral (eglGetProcAddress name)"
  "neutral (eglQueryDevicesEXT k)" "neutral (eglGetPlatformDisplayEXT d)"
  "neutral fetch_add_NUM_EGLCONTEXT_ALIVE"
  by (simp_all add: neutral_def)

lemma probe_loop_neutral:
  "\<exists>calls. trace (snd (probe_loop env i n vis s)) = trace s @ calls \<and> list_all neutral calls"
proof (induction env i n vis s rule: probe_loop.induct)
  case (1 env i n vis s)
  show ?case
  proof (cases "i < n")
    case True
    obtain r s' where c: "check_nvidia_readable env i s = (r, s')"
      by (cases "check_nvidia_readable env i s")
    then obtain c1 where c1: "trace s' = trace s @ c1" "list_all neutral c1"
      by (auto simp: check_nvidia_readable_def Let_def split: if_splits)
    from "1.IH" [OF True c [symmetric]] obtain c2 where
      c2: "trace (snd (probe_loop env (i + 1) n (if r then vis @ [i] else vis) s')) = trace s' @ c2"
        "list_all neutral c2"
      by blast
    from c1 c2
    have "trace (snd (probe_loop env (i + 1) n (if r then vis @ [i] else vis) s')) = trace s @ (c1 @ c2)"
      "list_all neutral (c1 @ c2)"
      by simp_all
    then have "\<exists>calls. trace (snd (probe_loop env (i + 1) n (if r then vis @ [i] else vis) s'))
         = trace s @ calls \<and> list_all neutral calls"
      by blast
    with True c show ?thesis
      by (subst probe_loop.simps) simp
  next
    case False
    then show ?thesis by (subst probe_loop.simps) simp
  qed
qed

lemma find_visible_devices_neutral: "appends_neutral (find_visible_devices env n)"
proof (rule appends_neutralI)
  fix s
  obtain vis s' where p: "probe_loop env 0 n [] s = (vis, s')"
    by (cases "probe_loop env 0 n [] s")
  with probe_loop_neutral [of env 0 n "[]" s]
  have "\<exists>calls. trace s' = trace s @ calls \<and> list_all neutral calls"
    by simp
  with p show "\<exists>calls. trace (snd (find_visible_devices env n s)) = trace s @ calls \<and>
      list_all neutral calls"
    by (simp add: find_visible_devices_def prog_defs)
qed

lemma egl_get_display_neutral: "appends_neutral (egl_get_display env device)"
  unfolding egl_get_display_def resolve_device_def array_at_def vector_at_def Let_def
  by (auto intro!: appends_neutral_seq appends_neutral_if appends_neutral_basic
      find_visible_devices_neutral)

lemma seq_Inr:
  "seq m f s = (Inr y, t) \<Longrightarrow> \<exists>x s'. m s = (Inr x, s') \<and> f x s' = (Inr y, t)"
  by (auto simp: seq_def split: prod.splits sum.splits)

lemma added_append [simp]: "added s (s'\<lparr>trace := trace s @ calls\<rparr>) = calls"
  by (simp add: added_def)

lemma GLFW_teardown:
  assumes "GLFWContext_ctor env g core s = (Inr this, s1)"
  shows "held (added s s1) [] = [Library, Window, Current] \<and>
     added s1 (snd (GLFWContext_dtor this s1)) = [glfwTerminate] \<and>
     teardown_order (added s1 (snd (GLFWContext_dtor this s1))) = [Library]"
  using assms
  by (cases core; cases "DEBUG env")
     (auto simp add: GLFWContext_ctor_def GLFWContext_dtor_def prog_defs init_def added_def
        teardown_order_def List.map_filter_simps split: if_splits)

lemma CGL_teardown:
  assumes "CGLHeadlessContext_ctor env g s = (Inr this, s1)" "cgl_context' this \<noteq> NULL"
  shows "held (added s s1) [] = [Context, Current] \<and>
     added s1 (snd (CGLHeadlessContext_dtor this s1)) =
       [CGLSetCurrentContext NULL, CGLDestroyContext (cgl_context' this)] \<and>
     teardown_order (added s1 (snd (CGLHeadlessContext_dtor this s1))) = [Current, Context] \<and>
     reverse_teardown (added s s1) (added s1 (snd (CGLHeadlessContext_dtor this s1)))"
  using assms
  by (auto simp add: CGLHeadlessContext_ctor_def CGLHeadlessContext_dtor_def cgl_checkError_def
        prog_defs init_def added_def Let_def
        reverse_teardown_def teardown_order_def List.map_filter_simps split: if_splits)

lemma GLX_teardown:
  assumes "GLXHeadlessContext_ctor env g s = (Inr this, s1)" "context' this \<noteq> NULL"
  shows "held (added s s1) [] = [Display, Context, Drawable, Current] \<and>
     added s1 (snd (GLXHeadlessContext_dtor this s1)) =
       [glXMakeContextCurrent (dpy' this) NULL NULL NULL,
        glXDestroyContext (dpy' this) (context' this),
        glXDestroyPbuffer (dpy' this) (pbuffer' this), XCloseDisplay (dpy' this)] \<and>
     teardown_order (added s1 (snd (GLXHeadlessContext_dtor this s1))) =
       [Current, Context, Drawable, Display]"
  using assms
  by (auto simp add: GLXHeadlessContext_ctor_def GLXHeadlessContext_dtor_def fbc_first_def
        prog_defs init_def added_def teardown_order_def List.map_filter_simps
        split: if_splits option.splits list.splits)

lemma EGL_teardown:
  assumes "EGLContext_ctor env g device s = (Inr this, s1)" "eglCtx' this \<noteq> NULL"
  shows "held (added s s1) [] = [Display, Context, Current] \<and>
     added s1 (snd (EGLContext_dtor this s1)) =
       [eglDestroyContext (eglDpy' this) (eglCtx' this), eglTerminate (eglDpy' this)] \<and>
     teardown_order (added s1 (snd (EGLContext_dtor this s1))) = [Context, Display]"
proof -
  let ?s0 = "s\<lparr>NUM_EGLCONTEXT_ALIVE := NUM_EGLCONTEXT_ALIVE s + 1,
         trace := trace s @ [fetch_add_NUM_EGLCONTEXT_ALIVE]\<rparr>"
  from assms(1) have "egl_after_increment env g device ?s0 = (Inr this, s1)"
    by (simp only: EGLContext_ctor_split)
  then obtain eglDpy s' where d: "egl_get_display env device ?s0 = (Inr eglDpy, s')"
    unfolding egl_after_increment_def by (blast dest: seq_Inr)
  from egl_get_display_neutral [of env device] d
  obtain calls where c: "trace s' = trace ?s0 @ calls" "list_all neutral calls"
    unfolding appends_neutral_def by (metis snd_conv)
  let ?rest = "[eglInitialize eglDpy, eglGetError, eglChooseConfig eglDpy, eglGetError,
      eglBindAPI, eglGetError, eglCreateContext eglDpy (eglCfg_out env), eglGetError,
      eglMakeCurrent eglDpy EGL_NO_SURFACE EGL_NO_SURFACE (r_eglCreateContext env), eglGetError,
      glViewport 0 0 (w g) (h g)]"
  from assms(1) have ok: "this = \<lparr>win_size' = g, eglDpy' = eglDpy, eglCtx' = r_eglCreateContext env\<rparr>"
      "s1 = s'\<lparr>trace := trace s' @ ?rest\<rparr>"
    unfolding EGLContext_ctor_after_display [OF d]
    by (simp_all split: if_splits)
  from assms(2) ok(1) have nz: "r_eglCreateContext env \<noteq> NULL"
    by simp
  from c ok have a: "added s s1 = (fetch_add_NUM_EGLCONTEXT_ALIVE # calls) @ ?rest"
    by (simp add: added_def)
  have n: "list_all neutral (fetch_add_NUM_EGLCONTEXT_ALIVE # calls)"
    using c(2) by simp
  have h: "held (added s s1) [] = held ?rest []"
    unfolding a held_append held_neutral [OF n] ..
  have t: "added s1 (snd (EGLContext_dtor this s1)) =
      [eglDestroyContext (eglDpy' this) (eglCtx' this), eglTerminate (eglDpy' this)]"
    by (simp add: EGLContext_dtor_def prog_defs added_def)
  show ?thesis
    unfolding h t using nz
    by (simp add: teardown_order_def List.map_filter_simps)
qed








section \<open>The claims\<close>

text \<open>
  C1. Device visibility resolver. Let \<open>N \<ge> 1\<close> be the enumerated device count and \<open>S\<close> the
  visibility set: for \<open>N > 1\<close> the indices below \<open>N\<close> whose device file opens, for \<open>N = 1\<close>
  the set \<open>{0}\<close>. Then \<open>S\<close> lies within \<open>{0..N-1}\<close>, the constructor's visibility list is
  \<open>S\<close> in ascending order, a logical index \<open>0 \<le> i < |S|\<close> resolves to the \<open>i\<close>-th smallest
  element of \<open>S\<close> (to \<open>i\<close> itself when \<open>|S| = N\<close>), the display is requested for the device
  enumerated at that physical index, and every \<open>i \<ge> |S|\<close> ends in \<^verbatim>\<open>error_exit\<close>.
\<close>

theorem resolver_maps_logical_to_physical:
  "1 \<le> numDevices_of env \<Longrightarrow>
   (let N = numDevices_of env;
        S = (if N > 1 then {k. 0 \<le> k \<and> k < N \<and> nvidia_open env k \<noteq> -1} else {0});
        eglDevs = take MAX_DEVICES (egl_devices env)
    in S \<subseteq> {0..N - 1} \<and>
       fst (find_visible_devices env N s) = Inr (sorted_list_of_set S) \<and>
       (0 \<le> i \<and> i < int (card S) \<longrightarrow>
          fst (resolve_device env i s) = Inr (eglDevs, sorted_list_of_set S ! nat i)) \<and>
       (0 \<le> i \<and> i < int (card S) \<and> int (card S) = N \<longrightarrow>
          fst (resolve_device env i s) = Inr (eglDevs, i)) \<and>
       (0 \<le> i \<and> i < int (card S) \<and>
        p_eglQueryDevicesEXT env \<noteq> NULL \<and> p_eglGetPlatformDisplayEXT env \<noteq> NULL \<longrightarrow>
          fst (egl_get_display env i s) =
            Inr (r_eglGetPlatformDisplayEXT env (eglDevs ! nat (sorted_list_of_set S ! nat i)))) \<and>
       (i \<ge> int (card S) \<longrightarrow>
          fst (resolve_device env i s) =
            Inl (error_exit ''[EGL] Request device %d but only found %lu devices''
                   [i, int (card S)])))"
proof -
  assume n: "1 \<le> numDevices_of env"
  let ?N = "numDevices_of env"
  let ?S = "if ?N > 1 then {k. 0 \<le> k \<and> k < ?N \<and> nvidia_open env k \<noteq> -1} else {0}"
  have sub: "?S \<subseteq> {0..?N - 1}" using n by auto
  have vis: "sorted_list_of_set ?S = visible_devices_of env"
    by (simp only: visible_devices_of_set)
  have card: "card ?S = length (visible_devices_of env)"
    by (simp only: visible_devices_of_card)
  have fv: "fst (find_visible_devices env ?N s) = Inr (sorted_list_of_set ?S)"
    using n by (simp only: vis find_visible_devices_fst if_True)
  have le: "int (length (visible_devices_of env)) \<le> ?N"
    using n by (rule visible_devices_of_length)
  have a: "fst (resolve_device env i s) = Inr (take MAX_DEVICES (egl_devices env), sorted_list_of_set ?S ! nat i)"
    if "0 \<le> i" "i < int (card ?S)"
    using that n le visible_devices_of_full [of env i]
    unfolding vis card by (simp add: resolve_device_fst)
  have b: "fst (resolve_device env i s) = Inr (take MAX_DEVICES (egl_devices env), i)"
    if "0 \<le> i" "i < int (card ?S)" "int (card ?S) = ?N"
    using that n unfolding vis card by (simp add: resolve_device_fst)
  have c: "fst (resolve_device env i s) =
            Inl (error_exit ''[EGL] Request device %d but only found %lu devices''
                   [i, int (card ?S)])"
    if "i \<ge> int (card ?S)"
    using that n unfolding vis card by (simp add: resolve_device_fst)
  have d: "fst (egl_get_display env i s) =
            Inr (r_eglGetPlatformDisplayEXT env
                   (take MAX_DEVICES (egl_devices env) ! nat (sorted_list_of_set ?S ! nat i)))"
    if "0 \<le> i" "i < int (card ?S)"
       "p_eglQueryDevicesEXT env \<noteq> NULL" "p_eglGetPlatformDisplayEXT env \<noteq> NULL"
    using that n le visible_devices_of_full [of env i]
    unfolding vis card by (simp add: egl_get_display_fst)
  from sub fv a b c d show ?thesis
    unfolding Let_def by blast
qed


theorem resolver_maps_logical_to_physical_witness:
  "1 \<le> numDevices_of env_scenario_B \<and>
   fst (resolve_device env_scenario_B 0 start) = Inr ([10, 11, 12], 0) \<and>
   fst (resolve_device env_scenario_B 1 start) = Inr ([10, 11, 12], 2) \<and>
   fst (egl_get_display env_scenario_B 1 start) = Inr 112 \<and>
   fst (resolve_device env_scenario_B 2 start) =
     Inl (error_exit ''[EGL] Request device %d but only found %lu devices'' [2, 2])"
proof -
  have n: "numDevices_of env_scenario_B = 3"
    by (simp add: numDevices_of_def env_scenario_B_def egl_env_ok_def MAX_DEVICES_def)
  have S: "{k. 0 \<le> k \<and> k < 3 \<and> nvidia_open env_scenario_B k \<noteq> -1} = {0, 2}"
    by (auto simp: env_scenario_B_def egl_env_ok_def)
  have d: "take MAX_DEVICES (egl_devices env_scenario_B) = [10, 11, 12]"
    by (simp add: env_scenario_B_def egl_env_ok_def MAX_DEVICES_def)
  have l: "sorted_list_of_set {0, 2 :: int} = [0, 2]"
    by simp
  have p: "p_eglQueryDevicesEXT env_scenario_B \<noteq> NULL"
    "p_eglGetPlatformDisplayEXT env_scenario_B \<noteq> NULL"
    "r_eglGetPlatformDisplayEXT env_scenario_B 12 = 112"
    by (simp_all add: env_scenario_B_def egl_env_ok_def)
  from resolver_maps_logical_to_physical [where env = env_scenario_B and s = start and i = 0]
       resolver_maps_logical_to_physical [where env = env_scenario_B and s = start and i = 1]
       resolver_maps_logical_to_physical [where env = env_scenario_B and s = start and i = 2]
  show ?thesis
    by (simp add: n S d l p Let_def)
qed

text \<open>
  C2. Live-context counter. The claim has the counter at \<open>k - j\<close> after \<open>k\<close> constructions
  and \<open>j\<close> destructions. The destructor of the EGL backend never touches the counter (its
  decrement is commented out): constructing one context in a fresh process and destroying
  it leaves the counter at 1, where the claim has 0.
\<close>

theorem counter_not_decremented:
  "NUM_EGLCONTEXT_ALIVE (snd (EGLContext_dtor this s)) = NUM_EGLCONTEXT_ALIVE s \<and>
   (case EGLContext_ctor env_scenario_A vga 0 start of
      (Inr this, s1) \<Rightarrow> NUM_EGLCONTEXT_ALIVE s1 = 1 \<and>
                        NUM_EGLCONTEXT_ALIVE (snd (EGLContext_dtor this s1)) = 1
    | (Inl e, s1) \<Rightarrow> False)"
proof -
  have a: "NUM_EGLCONTEXT_ALIVE (snd (EGLContext_dtor this s)) = NUM_EGLCONTEXT_ALIVE s" for this s
    using EGLContext_dtor_appends [of this] by (simp add: only_appends_def)
  obtain r s1 where c: "EGLContext_ctor env_scenario_A vga 0 start = (r, s1)"
    by (cases "EGLContext_ctor env_scenario_A vga 0 start")
  have "egl_display_result env_scenario_A 0 = Inr 110"
    by (simp add: egl_display_result_cases numDevices_of_def visible_devices_of_def
        env_scenario_A_def egl_env_ok_def MAX_DEVICES_def)
  then have "fst (EGLContext_ctor env_scenario_A vga 0 start) =
      Inr \<lparr>win_size' = vga, eglDpy' = 110, eglCtx' = 6\<rparr>"
    by (simp add: EGLContext_ctor_fst env_scenario_A_def egl_env_ok_def EGL_SUCCESS_def)
  with c have r: "r = Inr \<lparr>win_size' = vga, eglDpy' = 110, eglCtx' = 6\<rparr>" by simp
  have "NUM_EGLCONTEXT_ALIVE (snd (EGLContext_ctor env_scenario_A vga 0 start)) = 1"
    using egl_after_increment_appends [of env_scenario_A vga 0]
    by (simp add: EGLContext_ctor_split only_appends_def start_def)
  with c have n: "NUM_EGLCONTEXT_ALIVE s1 = 1" by simp
  from a c r n show ?thesis by simp
qed

text \<open>
  C3, as amended. Constructing a backend and destroying it at once. The CGL destructor
  clears the current context and destroys the context: exactly the reverse of what the
  constructor left set up (the context, then made current). The EGL destructor destroys
  the context and terminates the display, the reverse of initialising the display and
  creating the context; it does not clear the current context. The GLFW destructor only
  terminates the library. In the GLX backend the constructor sets up the display, the
  context, the drawable, and makes them current, in that order; the destructor clears
  the current context, destroys the context, destroys the drawable and closes the
  display: the context, created before the drawable, is also destroyed before it.
\<close>

theorem teardown_order_of_backends:
  "(CGLHeadlessContext_ctor envc g s = (Inr thisc, sc) \<and> cgl_context' thisc \<noteq> NULL \<longrightarrow>
      held (added s sc) [] = [Context, Current] \<and>
      added sc (snd (CGLHeadlessContext_dtor thisc sc)) =
        [CGLSetCurrentContext NULL, CGLDestroyContext (cgl_context' thisc)] \<and>
      teardown_order (added sc (snd (CGLHeadlessContext_dtor thisc sc))) = [Current, Context] \<and>
      reverse_teardown (added s sc) (added sc (snd (CGLHeadlessContext_dtor thisc sc)))) \<and>
   (EGLContext_ctor enve g device s = (Inr thise, se) \<and> eglCtx' thise \<noteq> NULL \<longrightarrow>
      held (added s se) [] = [Display, Context, Current] \<and>
      added se (snd (EGLContext_dtor thise se)) =
        [eglDestroyContext (eglDpy' thise) (eglCtx' thise), eglTerminate (eglDpy' thise)] \<and>
      teardown_order (added se (snd (EGLContext_dtor thise se))) = [Context, Display]) \<and>
   (GLFWContext_ctor envw g core s = (Inr thisw, sw) \<longrightarrow>
      held (added s sw) [] = [Library, Window, Current] \<and>
      added sw (snd (GLFWContext_dtor thisw sw)) = [glfwTerminate] \<and>
      teardown_order (added sw (snd (GLFWContext_dtor thisw sw))) = [Library]) \<and>
   (GLXHeadlessContext_ctor envx g s = (Inr thisx, sx) \<and> context' thisx \<noteq> NULL \<longrightarrow>
      held (added s sx) [] = [Display, Context, Drawable, Current] \<and>
      added sx (snd (GLXHeadlessContext_dtor thisx sx)) =
        [glXMakeContextCurrent (dpy' thisx) NULL NULL NULL,
         glXDestroyContext (dpy' thisx) (context' thisx),
         glXDestroyPbuffer (dpy' thisx) (pbuffer' thisx), XCloseDisplay (dpy' thisx)] \<and>
      teardown_order (added sx (snd (GLXHeadlessContext_dtor thisx sx))) =
        [Current, Context, Drawable, Display])"
  using GLFW_teardown [of envw g core s thisw sw] EGL_teardown [of enve g device s thise se]
    CGL_teardown [of envc g s thisc sc] GLX_teardown [of envx g s thisx sx]
  by blast

theorem teardown_order_of_backends_witness:
  "fst (CGLHeadlessContext_ctor cgl_env_ok vga start) =
     Inr \<lparr>cgl_win_size' = vga, cgl_context' = 4\<rparr> \<and>
   added (snd (CGLHeadlessContext_ctor cgl_env_ok vga start))
     (snd (CGLHeadlessContext_dtor \<lparr>cgl_win_size' = vga, cgl_context' = 4\<rparr>
            (snd (CGLHeadlessContext_ctor cgl_env_ok vga start)))) =
     [CGLSetCurrentContext NULL, CGLDestroyContext 4] \<and>
   reverse_teardown
     (added start (snd (CGLHeadlessContext_ctor cgl_env_ok vga start)))
     (added (snd (CGLHeadlessContext_ctor cgl_env_ok vga start))
        (snd (CGLHeadlessContext_dtor \<lparr>cgl_win_size' = vga, cgl_context' = 4\<rparr>
               (snd (CGLHeadlessContext_ctor cgl_env_ok vga start))))) \<and>
   fst (EGLContext_ctor env_scenario_A vga 0 start) =
     Inr \<lparr>win_size' = vga, eglDpy' = 110, eglCtx' = 6\<rparr> \<and>
   held (added start (snd (EGLContext_ctor env_scenario_A vga 0 start))) [] =
     [Display, Context, Current] \<and>
   added (snd (EGLContext_ctor env_scenario_A vga 0 start))
     (snd (EGLContext_dtor \<lparr>win_size' = vga, eglDpy' = 110, eglCtx' = 6\<rparr>
            (snd (EGLContext_ctor env_scenario_A vga 0 start)))) =
     [eglDestroyContext 110 6, eglTerminate 110] \<and>
   fst (GLFWContext_ctor glfw_env_ok vga True start) =
     Inr \<lparr>glfw_win_size' = vga, window' = 1\<rparr> \<and>
   held (added start (snd (GLFWContext_ctor glfw_env_ok vga True start))) [] =
     [Library, Window, Current] \<and>
   added (snd (GLFWContext_ctor glfw_env_ok vga True start))
     (snd (GLFWContext_dtor \<lparr>glfw_win_size' = vga, window' = 1\<rparr>
            (snd (GLFWContext_ctor glfw_env_ok vga True start)))) = [glfwTerminate] \<and>
   fst (GLXHeadlessContext_ctor glx_env_ok vga start) =
     Inr \<lparr>glx_win_size' = vga, dpy' = 1, context' = 4, pbuffer' = 3\<rparr> \<and>
   held (added start (snd (GLXHeadlessContext_ctor glx_env_ok vga start))) [] =
     [Display, Context, Drawable, Current] \<and>
   added (snd (GLXHeadlessContext_ctor glx_env_ok vga start))
     (snd (GLXHeadlessContext_dtor \<lparr>glx_win_size' = vga, dpy' = 1, context' = 4, pbuffer' = 3\<rparr>
            (snd (GLXHeadlessContext_ctor glx_env_ok vga start)))) =
     [glXMakeContextCurrent 1 NULL NULL NULL, glXDestroyContext 1 4, glXDestroyPbuffer 1 3,
      XCloseDisplay 1]"
proof -
  have w: "fst (GLFWContext_ctor glfw_env_ok vga True start) =
      Inr \<lparr>glfw_win_size' = vga, window' = 1\<rparr>"
    by (simp add: GLFWContext_ctor_def prog_defs init_def glfw_env_ok_def)
  have "egl_display_result env_scenario_A 0 = Inr 110"
    by (simp add: egl_display_result_cases numDevices_of_def visible_devices_of_def
        env_scenario_A_def egl_env_ok_def MAX_DEVICES_def)
  then have e: "fst (EGLContext_ctor env_scenario_A vga 0 start) =
      Inr \<lparr>win_size' = vga, eglDpy' = 110, eglCtx' = 6\<rparr>"
    by (simp add: EGLContext_ctor_fst env_scenario_A_def egl_env_ok_def EGL_SUCCESS_def)
  have c: "fst (CGLHeadlessContext_ctor cgl_env_ok vga start) =
     Inr \<lparr>cgl_win_size' = vga, cgl_context' = 4\<rparr>"
    by (simp add: CGLHeadlessContext_ctor_def cgl_checkError_def prog_defs init_def
        cgl_env_ok_def kCGLNoError_def)
  have x: "fst (GLXHeadlessContext_ctor glx_env_ok vga start) =
     Inr \<lparr>glx_win_size' = vga, dpy' = 1, context' = 4, pbuffer' = 3\<rparr>"
    by (simp add: GLXHeadlessContext_ctor_def fbc_first_def prog_defs init_def glx_env_ok_def)
  have p: "fst r = a \<Longrightarrow> r = (a, snd r)" for r :: "'a \<times> 'b" and a
    by auto
  note t = teardown_order_of_backends [where envw = glfw_env_ok and g = vga and core = True
      and s = start and thisw = "\<lparr>glfw_win_size' = vga, window' = 1\<rparr>"
      and sw = "snd (GLFWContext_ctor glfw_env_ok vga True start)"
      and enve = env_scenario_A and device = 0
      and thise = "\<lparr>win_size' = vga, eglDpy' = 110, eglCtx' = 6\<rparr>"
      and se = "snd (EGLContext_ctor env_scenario_A vga 0 start)"
      and envc = cgl_env_ok and thisc = "\<lparr>cgl_win_size' = vga, cgl_context' = 4\<rparr>"
      and sc = "snd (CGLHeadlessContext_ctor cgl_env_ok vga start)"
      and envx = glx_env_ok
      and thisx = "\<lparr>glx_win_size' = vga, dpy' = 1, context' = 4, pbuffer' = 3\<rparr>"
      and sx = "snd (GLXHeadlessContext_ctor glx_env_ok vga start)"]
  have nc: "cgl_context' \<lparr>cgl_win_size' = vga, cgl_context' = 4\<rparr> \<noteq> NULL"
    and ne: "eglCtx' \<lparr>win_size' = vga, eglDpy' = 110, eglCtx' = 6\<rparr> \<noteq> NULL"
    and nx: "context' \<lparr>glx_win_size' = vga, dpy' = 1, context' = 4, pbuffer' = 3\<rparr> \<noteq> NULL"
    by simp_all
  note t1 = t [THEN conjunct1, THEN mp, OF conjI [OF p [OF c] nc]]
  note t2 = t [THEN conjunct2, THEN conjunct1, THEN mp, OF conjI [OF p [OF e] ne]]
  note t3 = t [THEN conjunct2, THEN conjunct2, THEN conjunct1, THEN mp, OF p [OF w]]
  note t4 = t [THEN conjunct2, THEN conjunct2, THEN conjunct2, THEN mp, OF conjI [OF p [OF x] nx]]
  from w e c x t1 t2 t3 t4 show ?thesis
    by clarsimp
qed

text \<open>
  C3, as stated, fails. The teardown of the GLX backend is not the reverse of its
  construction: the context is created before the pixel buffer and destroyed before it.
  Nor is the teardown of the GLFW backend (one call, terminating the library, for the
  library, the window and the current context) or of the EGL backend (the current
  context is never cleared).
\<close>

theorem teardown_not_reversed:
  "(case GLXHeadlessContext_ctor glx_env_ok vga start of
      (Inr this, s1) \<Rightarrow>
        held (added start s1) [] = [Display, Context, Drawable, Current] \<and>
        teardown_order (added s1 (snd (GLXHeadlessContext_dtor this s1))) =
          [Current, Context, Drawable, Display] \<and>
        \<not> reverse_teardown (added start s1) (added s1 (snd (GLXHeadlessContext_dtor this s1)))
    | (Inl e, s1) \<Rightarrow> False) \<and>
   (case GLFWContext_ctor glfw_env_ok vga True start of
      (Inr this, s1) \<Rightarrow>
        held (added start s1) [] = [Library, Window, Current] \<and>
        added s1 (snd (GLFWContext_dtor this s1)) = [glfwTerminate] \<and>
        \<not> reverse_teardown (added start s1) (added s1 (snd (GLFWContext_dtor this s1)))
    | (Inl e, s1) \<Rightarrow> False) \<and>
   held (added start (snd (EGLContext_ctor env_scenario_A vga 0 start))) [] =
     [Display, Context, Current] \<and>
   teardown_order
     (added (snd (EGLContext_ctor env_scenario_A vga 0 start))
        (snd (EGLContext_dtor \<lparr>win_size' = vga, eglDpy' = 110, eglCtx' = 6\<rparr>
               (snd (EGLContext_ctor env_scenario_A vga 0 start))))) = [Context, Display] \<and>
   \<not> reverse_teardown
     (added start (snd (EGLContext_ctor env_scenario_A vga 0 start)))
     (added (snd (EGLContext_ctor env_scenario_A vga 0 start))
        (snd (EGLContext_dtor \<lparr>win_size' = vga, eglDpy' = 110, eglCtx' = 6\<rparr>
               (snd (EGLContext_ctor env_scenario_A vga 0 start)))))"
proof -
  have x: "(case GLXHeadlessContext_ctor glx_env_ok vga start of
      (Inr this, s1) \<Rightarrow>
        held (added start s1) [] = [Display, Context, Drawable, Current] \<and>
        teardown_order (added s1 (snd (GLXHeadlessContext_dtor this s1))) =
          [Current, Context, Drawable, Display] \<and>
        \<not> reverse_teardown (added start s1) (added s1 (snd (GLXHeadlessContext_dtor this s1)))
    | (Inl e, s1) \<Rightarrow> False)"
    by (simp add: GLXHeadlessContext_ctor_def GLXHeadlessContext_dtor_def fbc_first_def
      prog_defs init_def glx_env_ok_def added_def start_def teardown_order_def
      reverse_teardown_def List.map_filter_simps)
  have w: "(case GLFWContext_ctor glfw_env_ok vga True start of
      (Inr this, s1) \<Rightarrow>
        held (added start s1) [] = [Library, Window, Current] \<and>
        added s1 (snd (GLFWContext_dtor this s1)) = [glfwTerminate] \<and>
        \<not> reverse_teardown (added start s1) (added s1 (snd (GLFWContext_dtor this s1)))
    | (Inl e, s1) \<Rightarrow> False)"
    by (simp add: GLFWContext_ctor_def GLFWContext_dtor_def
      prog_defs init_def glfw_env_ok_def added_def start_def teardown_order_def
      reverse_teardown_def List.map_filter_simps)
  have tr: "trace (snd (EGLContext_ctor env_scenario_A vga 0 start)) =
     [fetch_add_NUM_EGLCONTEXT_ALIVE,
      eglGetProcAddress ''eglQueryDevicesEXT'', eglGetProcAddress ''eglGetPlatformDisplayEXT'',
      eglQueryDevicesEXT 16, eglGetPlatformDisplayEXT 10,
      eglInitialize 110, eglGetError, eglChooseConfig 110, eglGetError,
      eglBindAPI, eglGetError, eglCreateContext 110 5, eglGetError,
      eglMakeCurrent 110 0 0 6, eglGetError, glViewport 0 0 640 480]"
    by (simp add: EGLContext_ctor_def scenario_A_display prog_defs checkError_def init_def
        start_def vga_def EGL_SUCCESS_def)
       (simp add: env_scenario_A_def egl_env_ok_def)
  have e: "held (added start (snd (EGLContext_ctor env_scenario_A vga 0 start))) [] =
     [Display, Context, Current]"
    unfolding added_def tr by (simp add: start_def)
  have d: "added (snd (EGLContext_ctor env_scenario_A vga 0 start))
        (snd (EGLContext_dtor \<lparr>win_size' = vga, eglDpy' = 110, eglCtx' = 6\<rparr>
               (snd (EGLContext_ctor env_scenario_A vga 0 start)))) =
     [eglDestroyContext 110 6, eglTerminate 110]"
    by (simp add: EGLContext_dtor_def prog_defs added_def)
  from x w show ?thesis
    unfolding reverse_teardown_def e d
    by (simp add: teardown_order_def)
qed

text \<open>
  C4. Configuration negotiation of the EGL backend. The constructor exits with the
  configuration message exactly when it reached the query (the display was obtained and
  initialised), the query itself passed its check, and the number of configurations
  returned is not 1. A query that returns 2 configurations therefore ends the
  construction.
\<close>

theorem config_count_must_be_one:
  "fst (EGLContext_ctor env g device s) =
     Inl (error_exit ''Cannot create configs for EGL! You driver may not support EGL.'' []) \<longleftrightarrow>
   (\<exists>eglDpy. fst (egl_get_display env device s) = Inr eglDpy) \<and>
   r_eglInitialize env \<and> e_eglInitialize env = EGL_SUCCESS \<and>
   r_eglChooseConfig env \<and> e_eglChooseConfig env = EGL_SUCCESS \<and>
   numConfigs_out env \<noteq> 1"
proof (cases "egl_display_result env device")
  case (Inl e)
  with egl_display_result_not_config [of env device]
  show ?thesis
    by (simp add: EGLContext_ctor_fst egl_get_display_result)
next
  case (Inr dpy)
  then show ?thesis
    by (simp add: EGLContext_ctor_fst egl_get_display_result)
qed

theorem config_count_must_be_one_witness:
  "numConfigs_out env_scenario_C = 2 \<and>
   fst (EGLContext_ctor env_scenario_C vga 0 start) =
     Inl (error_exit ''Cannot create configs for EGL! You driver may not support EGL.'' [])"
proof -
  have "egl_display_result env_scenario_C 0 = Inr 110"
    by (simp add: egl_display_result_cases numDevices_of_def visible_devices_of_def
        env_scenario_C_def egl_env_ok_def MAX_DEVICES_def)
  then have d: "fst (egl_get_display env_scenario_C 0 start) = Inr 110"
    by (simp only: egl_get_display_result)
  have e: "r_eglInitialize env_scenario_C" "e_eglInitialize env_scenario_C = EGL_SUCCESS"
    "r_eglChooseConfig env_scenario_C" "e_eglChooseConfig env_scenario_C = EGL_SUCCESS"
    "numConfigs_out env_scenario_C = 2"
    by (simp_all add: env_scenario_C_def egl_env_ok_def EGL_SUCCESS_def)
  from config_count_must_be_one [of env_scenario_C vga 0 start] d e
  show ?thesis by simp
qed




text \<open>
  C6, as amended. The increment of the live-context counter is the first action of the
  EGL constructor: whatever the environment and the requested device, and whether or not
  a later step exits, the constructor adds one to the counter and the first call it adds
  to the trace is that increment.
\<close>

theorem increment_is_first_step:
  "NUM_EGLCONTEXT_ALIVE (snd (EGLContext_ctor env g device s)) = NUM_EGLCONTEXT_ALIVE s + 1 \<and>
   prefix (trace s @ [fetch_add_NUM_EGLCONTEXT_ALIVE])
     (trace (snd (EGLContext_ctor env g device s)))"
proof -
  let ?s1 = "s\<lparr>NUM_EGLCONTEXT_ALIVE := NUM_EGLCONTEXT_ALIVE s + 1,
          trace := trace s @ [fetch_add_NUM_EGLCONTEXT_ALIVE]\<rparr>"
  from egl_after_increment_appends [of env g device]
  have "NUM_EGLCONTEXT_ALIVE (snd (egl_after_increment env g device ?s1)) = NUM_EGLCONTEXT_ALIVE ?s1"
    and "prefix (trace ?s1) (trace (snd (egl_after_increment env g device ?s1)))"
    unfolding only_appends_def by blast+
  then show ?thesis
    by (simp add: EGLContext_ctor_split)
qed

text \<open>
  C6, as stated, fails: in a construction that succeeds, the increment is the first entry
  of the trace, before the function-pointer lookups, the enumeration and
  \<^verbatim>\<open>eglMakeCurrent\<close>, not between \<^verbatim>\<open>eglMakeCurrent\<close> and \<^verbatim>\<open>glViewport\<close>.
\<close>

theorem increment_before_make_current:
  "trace (snd (EGLContext_ctor env_scenario_A vga 0 start)) =
     [fetch_add_NUM_EGLCONTEXT_ALIVE,
      eglGetProcAddress ''eglQueryDevicesEXT'', eglGetProcAddress ''eglGetPlatformDisplayEXT'',
      eglQueryDevicesEXT 16, eglGetPlatformDisplayEXT 10,
      eglInitialize 110, eglGetError, eglChooseConfig 110, eglGetError,
      eglBindAPI, eglGetError, eglCreateContext 110 5, eglGetError,
      eglMakeCurrent 110 0 0 6, eglGetError, glViewport 0 0 640 480]"
  by (simp add: EGLContext_ctor_def scenario_A_display prog_defs checkError_def init_def
      start_def vga_def EGL_SUCCESS_def)
     (simp add: env_scenario_A_def egl_env_ok_def)

text \<open>
  C7. Device-count classification. With the extension functions present and no device
  enumerated, the constructor exits with the no-devices message. With one device
  enumerated, the visibility list is \<open>[0]\<close> and building it changes nothing in the world
  (no device file is opened); the resolver then maps logical index 0 to physical index
  0, its only native call being the enumeration, and logical index 1 exits with the
  out-of-range message.
\<close>

theorem device_count_classification:
  "(egl_devices env = [] \<and>
    p_eglQueryDevicesEXT env \<noteq> NULL \<and> p_eglGetPlatformDisplayEXT env \<noteq> NULL \<longrightarrow>
      fst (EGLContext_ctor env g device s) =
        Inl (error_exit ''[EGL] eglQueryDevicesEXT() cannot find any EGL devices!'' [])) \<and>
   (length (egl_devices env) = 1 \<longrightarrow>
      find_visible_devices env 1 s = (Inr [0], s) \<and>
      resolve_device env 0 s =
        (Inr (egl_devices env, 0),
         s\<lparr>trace := trace s @ [eglQueryDevicesEXT MAX_DEVICES],
           cerr := cerr s @ [Str ''[EGL] Detected '', Num 1, Str '' devices. Using device '',
                             Num 0, Endl]\<rparr>) \<and>
      fst (resolve_device env 1 s) =
        Inl (error_exit ''[EGL] Request device %d but only found %lu devices'' [1, 1]) \<and>
      (p_eglQueryDevicesEXT env \<noteq> NULL \<and> p_eglGetPlatformDisplayEXT env \<noteq> NULL \<longrightarrow>
         fst (EGLContext_ctor env g 1 s) =
           Inl (error_exit ''[EGL] Request device %d but only found %lu devices'' [1, 1])))"
proof -
  have a: "fst (EGLContext_ctor env g device s) =
        Inl (error_exit ''[EGL] eglQueryDevicesEXT() cannot find any EGL devices!'' [])"
    if "egl_devices env = []" "p_eglQueryDevicesEXT env \<noteq> NULL"
       "p_eglGetPlatformDisplayEXT env \<noteq> NULL"
    using that numDevices_of_0 [of env]
    by (simp add: EGLContext_ctor_fst egl_display_result_cases)
  have b: "find_visible_devices env 1 s = (Inr [0], s)"
    by (simp add: find_visible_devices_def ret_def)
  have c: "resolve_device env 0 s =
        (Inr (egl_devices env, 0),
         s\<lparr>trace := trace s @ [eglQueryDevicesEXT MAX_DEVICES],
           cerr := cerr s @ [Str ''[EGL] Detected '', Num 1, Str '' devices. Using device '',
                             Num 0, Endl]\<rparr>)"
    if "length (egl_devices env) = 1"
    using that
    by (simp add: resolve_device_def find_visible_devices_def prog_defs MAX_DEVICES_def)
  have v: "visible_devices_of env = [0]" if "length (egl_devices env) = 1"
    using numDevices_of_1 [OF that] by (simp add: visible_devices_of_def)
  have d: "fst (resolve_device env 1 s) =
        Inl (error_exit ''[EGL] Request device %d but only found %lu devices'' [1, 1])"
    if "length (egl_devices env) = 1"
    using numDevices_of_1 [OF that] v [OF that] by (simp add: resolve_device_fst)
  have e: "fst (EGLContext_ctor env g 1 s) =
           Inl (error_exit ''[EGL] Request device %d but only found %lu devices'' [1, 1])"
    if "length (egl_devices env) = 1" "p_eglQueryDevicesEXT env \<noteq> NULL"
       "p_eglGetPlatformDisplayEXT env \<noteq> NULL"
    using that(2,3) numDevices_of_1 [OF that(1)] v [OF that(1)]
    by (simp add: EGLContext_ctor_fst egl_display_result_cases)
  from a b c d e show ?thesis by blast
qed

theorem device_count_classification_witness:
  "length (egl_devices env_scenario_A) = 1 \<and>
   fst (resolve_device env_scenario_A 0 start) = Inr ([10], 0) \<and>
   trace (snd (resolve_device env_scenario_A 0 start)) = [eglQueryDevicesEXT 16] \<and>
   fst (EGLContext_ctor env_scenario_A vga 1 start) =
     Inl (error_exit ''[EGL] Request device %d but only found %lu devices'' [1, 1]) \<and>
   fst (EGLContext_ctor env_no_devices vga 0 start) =
     Inl (error_exit ''[EGL] eglQueryDevicesEXT() cannot find any EGL devices!'' [])"
proof -
  have a: "length (egl_devices env_scenario_A) = 1" "egl_devices env_scenario_A = [10]"
    "p_eglQueryDevicesEXT env_scenario_A \<noteq> NULL"
    "p_eglGetPlatformDisplayEXT env_scenario_A \<noteq> NULL"
    by (simp_all add: env_scenario_A_def egl_env_ok_def)
  have n: "egl_devices env_no_devices = []"
    "p_eglQueryDevicesEXT env_no_devices \<noteq> NULL"
    "p_eglGetPlatformDisplayEXT env_no_devices \<noteq> NULL"
    by (simp_all add: env_no_devices_def egl_env_ok_def)
  from device_count_classification [of env_scenario_A vga 0 start]
       device_count_classification [of env_no_devices vga 0 start] a n
  show ?thesis by (simp add: start_def MAX_DEVICES_def)
qed

text \<open>
  C8, as amended. Called with a context current (all four strings available),
  \<^verbatim>\<open>printInfo\<close> queries the version for the assertion and then the four strings, and
  writes exactly six lines to \<^verbatim>\<open>cerr\<close>: a banner, the GL version, the GLSL version, the
  vendor, the renderer and a closing banner, each ended by \<^verbatim>\<open>endl\<close>.
\<close>

theorem printInfo_six_lines:
  "gl_string GL_VERSION = Some version \<Longrightarrow>
   gl_string GL_SHADING_LANGUAGE_VERSION = Some glsl \<Longrightarrow>
   gl_string GL_VENDOR = Some vendor \<Longrightarrow>
   gl_string GL_RENDERER = Some renderer \<Longrightarrow>
   printInfo gl_string s =
     (Inr (),
      s\<lparr>trace := trace s @ [glGetString GL_VERSION, glGetString GL_VERSION,
                             glGetString GL_SHADING_LANGUAGE_VERSION, glGetString GL_VENDOR,
                             glGetString GL_RENDERER],
        cerr := cerr s @
          [Str ''----------- OpenGL Context Info --------------'', Endl,
           Str ''GL Version: '', Str version, Endl,
           Str ''GLSL Version: '', Str glsl, Endl,
           Str ''Vendor: '', Str vendor, Endl,
           Str ''Renderer: '', Str renderer, Endl,
           Str ''----------------------------------------------'', Endl]\<rparr>) \<and>
   count_list (cerr (snd (printInfo gl_string s))) Endl = count_list (cerr s) Endl + 6"
  by (simp add: printInfo_def cerr_line_def m_assert_def prog_defs)

theorem printInfo_six_lines_witness:
  "cerr (snd (printInfo gl_strings start)) =
     [Str ''----------- OpenGL Context Info --------------'', Endl,
      Str ''GL Version: '', Str ''4.5.0'', Endl,
      Str ''GLSL Version: '', Str ''4.50'', Endl,
      Str ''Vendor: '', Str ''NVIDIA Corporation'', Endl,
      Str ''Renderer: '', Str ''Tesla'', Endl,
      Str ''----------------------------------------------'', Endl]"
  using printInfo_six_lines [of gl_strings _ _ _ _ start]
  by (simp add: start_def)

text \<open>
  C8, as stated, fails: the diagnostics of a current context are six lines, not five.
\<close>

theorem printInfo_not_five_lines:
  "count_list (cerr (snd (printInfo gl_strings start))) Endl = 6"
  by (simp add: printInfo_def cerr_line_def m_assert_def prog_defs start_def)

text \<open>
  C9. Let \<open>visible_devices\<close> be the visibility list the constructor builds. The resolver's
  range check exits exactly when the requested logical index is at least the length of
  that list, so a negative index is never rejected by it. A negative index then reaches
  an index operation without a guard: when every device is visible it is handed on
  unchanged and indexes the array of enumerated devices; otherwise it indexes the
  visibility vector. Either way the constructor runs into undefined behaviour. The
  lookup in the array of enumerated devices is defined exactly for indices from 0 up to
  the enumerated count.
\<close>

theorem negative_index_unguarded:
  "fst (find_visible_devices env (numDevices_of env) s) = Inr visible_devices \<Longrightarrow>
   (fst (resolve_device env device s) =
      Inl (error_exit ''[EGL] Request device %d but only found %lu devices''
             [device, int (length visible_devices)]) \<longleftrightarrow>
    device \<ge> int (length visible_devices)) \<and>
   (device < 0 \<and> int (length visible_devices) = numDevices_of env \<longrightarrow>
      fst (resolve_device env device s) = Inr (take MAX_DEVICES (egl_devices env), device) \<and>
      fst (array_at (take MAX_DEVICES (egl_devices env)) device s) =
        Inl (undefined_behaviour
               (array_index_out_of_range device (length (take MAX_DEVICES (egl_devices env)))))) \<and>
   (device < 0 \<and> int (length visible_devices) \<noteq> numDevices_of env \<longrightarrow>
      fst (resolve_device env device s) =
        Inl (undefined_behaviour (vector_index_out_of_range device (length visible_devices)))) \<and>
   (device < 0 \<and>
    p_eglQueryDevicesEXT env \<noteq> NULL \<and> p_eglGetPlatformDisplayEXT env \<noteq> NULL \<longrightarrow>
      fst (EGLContext_ctor env g device s) =
        Inl (undefined_behaviour
              (if int (length visible_devices) = numDevices_of env
               then array_index_out_of_range device (length (take MAX_DEVICES (egl_devices env)))
               else vector_index_out_of_range device (length visible_devices)))) \<and>
   ((\<exists>dev. fst (array_at (take MAX_DEVICES (egl_devices env)) i s) = Inr dev) \<longleftrightarrow>
    0 \<le> i \<and> i < numDevices_of env)"
proof -
  assume f: "fst (find_visible_devices env (numDevices_of env) s) = Inr visible_devices"
  then have n: "1 \<le> numDevices_of env" and v: "visible_devices_of env = visible_devices"
    by (simp_all add: find_visible_devices_fst split: if_splits)
  have a: "fst (resolve_device env device s) =
      Inl (error_exit ''[EGL] Request device %d but only found %lu devices''
             [device, int (length visible_devices)]) \<longleftrightarrow>
    device \<ge> int (length visible_devices)"
    using n v by (simp add: resolve_device_fst)
  have b: "fst (resolve_device env device s) = Inr (take MAX_DEVICES (egl_devices env), device) \<and>
      fst (array_at (take MAX_DEVICES (egl_devices env)) device s) =
        Inl (undefined_behaviour
               (array_index_out_of_range device (length (take MAX_DEVICES (egl_devices env)))))"
    if "device < 0" "int (length visible_devices) = numDevices_of env"
    using that n v by (simp add: resolve_device_fst array_at_def fail_def)
  have c: "fst (resolve_device env device s) =
        Inl (undefined_behaviour (vector_index_out_of_range device (length visible_devices)))"
    if "device < 0" "int (length visible_devices) \<noteq> numDevices_of env"
    using that n v by (simp add: resolve_device_fst)
  have d: "fst (EGLContext_ctor env g device s) =
        Inl (undefined_behaviour
              (if int (length visible_devices) = numDevices_of env
               then array_index_out_of_range device (length (take MAX_DEVICES (egl_devices env)))
               else vector_index_out_of_range device (length visible_devices)))"
    if "device < 0" "p_eglQueryDevicesEXT env \<noteq> NULL" "p_eglGetPlatformDisplayEXT env \<noteq> NULL"
    using that n v by (simp add: EGLContext_ctor_fst egl_display_result_cases)
  have e: "(\<exists>dev. fst (array_at (take MAX_DEVICES (egl_devices env)) i s) = Inr dev) \<longleftrightarrow>
    0 \<le> i \<and> i < numDevices_of env"
    by (simp add: array_at_def numDevices_of_def prog_defs del: length_take)
  from a b c d e show ?thesis by blast
qed

theorem negative_index_unguarded_witness:
  "fst (find_visible_devices env_scenario_B (numDevices_of env_scenario_B) start) = Inr [0, 2] \<and>
   fst (resolve_device env_scenario_B (-1) start) =
     Inl (undefined_behaviour (vector_index_out_of_range (-1) 2)) \<and>
   fst (find_visible_devices env_scenario_A (numDevices_of env_scenario_A) start) = Inr [0] \<and>
   fst (resolve_device env_scenario_A (-1) start) = Inr ([10], -1) \<and>
   fst (EGLContext_ctor env_scenario_A vga (-1) start) =
     Inl (undefined_behaviour (array_index_out_of_range (-1) 1))"
proof -
  have nb: "numDevices_of env_scenario_B = 3"
    by (simp add: numDevices_of_def env_scenario_B_def egl_env_ok_def MAX_DEVICES_def)
  have vb: "visible_devices_of env_scenario_B = [0, 2]"
    by (simp add: visible_devices_of_def nb) (simp add: env_scenario_B_def egl_env_ok_def upto.simps)
  have b: "fst (find_visible_devices env_scenario_B (numDevices_of env_scenario_B) start) = Inr [0, 2]"
    using find_visible_devices_fst [of env_scenario_B start] by (simp add: nb vb)
  have na: "numDevices_of env_scenario_A = 1"
    by (simp add: numDevices_of_def env_scenario_A_def egl_env_ok_def MAX_DEVICES_def)
  have va: "visible_devices_of env_scenario_A = [0]"
    by (simp add: visible_devices_of_def na)
  have a: "fst (find_visible_devices env_scenario_A (numDevices_of env_scenario_A) start) = Inr [0]"
    using find_visible_devices_fst [of env_scenario_A start] by (simp add: na va)
  have p: "take MAX_DEVICES (egl_devices env_scenario_A) = [10]"
    "p_eglQueryDevicesEXT env_scenario_A \<noteq> NULL" "p_eglGetPlatformDisplayEXT env_scenario_A \<noteq> NULL"
    by (simp_all add: env_scenario_A_def egl_env_ok_def MAX_DEVICES_def)
  from negative_index_unguarded [OF b, of "-1" vga 0]
       negative_index_unguarded [OF a, of "-1" vga 0] a b na nb p
  show ?thesis by simp
qed

text \<open>
  C10. When more than one device is enumerated and none of the device files opens, the
  visibility list is empty and the constructor exits with the out-of-range message,
  reporting 0 found devices, for every requested index \<open>\<ge> 0\<close>. The no-devices message
  is produced exactly when the extension functions are present and the enumeration
  returns no device.
\<close>

theorem hidden_devices_out_of_range:
  "(p_eglQueryDevicesEXT env \<noteq> NULL \<and> p_eglGetPlatformDisplayEXT env \<noteq> NULL \<and>
    1 < numDevices_of env \<and>
    (\<forall>k. 0 \<le> k \<and> k < numDevices_of env \<longrightarrow> nvidia_open env k = -1) \<and> 0 \<le> device \<longrightarrow>
      fst (find_visible_devices env (numDevices_of env) s) = Inr [] \<and>
      fst (EGLContext_ctor env g device s) =
        Inl (error_exit ''[EGL] Request device %d but only found %lu devices'' [device, 0])) \<and>
   (fst (EGLContext_ctor env g device s) =
      Inl (error_exit ''[EGL] eglQueryDevicesEXT() cannot find any EGL devices!'' []) \<longleftrightarrow>
    p_eglQueryDevicesEXT env \<noteq> NULL \<and> p_eglGetPlatformDisplayEXT env \<noteq> NULL \<and>
    numDevices_of env = 0)"
proof -
  have a: "fst (find_visible_devices env (numDevices_of env) s) = Inr [] \<and>
      fst (EGLContext_ctor env g device s) =
        Inl (error_exit ''[EGL] Request device %d but only found %lu devices'' [device, 0])"
    if "p_eglQueryDevicesEXT env \<noteq> NULL" "p_eglGetPlatformDisplayEXT env \<noteq> NULL"
      "1 < numDevices_of env"
      "\<forall>k. 0 \<le> k \<and> k < numDevices_of env \<longrightarrow> nvidia_open env k = -1" "0 \<le> device"
    using that visible_devices_of_hidden [OF that(3,4)]
    by (simp add: EGLContext_ctor_fst egl_display_result_cases find_visible_devices_fst)
  have "numDevices_of env = 0 \<longleftrightarrow> egl_devices env = []"
    using numDevices_of_0 [of env] by (simp add: numDevices_of_def)
  with a EGLContext_ctor_no_devices_iff [of env g device s] show ?thesis
    by blast
qed

theorem hidden_devices_out_of_range_witness:
  "1 < numDevices_of env_hidden \<and>
   fst (EGLContext_ctor env_hidden vga 0 start) =
     Inl (error_exit ''[EGL] Request device %d but only found %lu devices'' [0, 0]) \<and>
   fst (EGLContext_ctor env_hidden vga 1 start) =
     Inl (error_exit ''[EGL] Request device %d but only found %lu devices'' [1, 0])"
proof -
  have a: "p_eglQueryDevicesEXT env_hidden \<noteq> NULL" "p_eglGetPlatformDisplayEXT env_hidden \<noteq> NULL"
    "numDevices_of env_hidden = 2" "\<And>k. nvidia_open env_hidden k = -1"
    by (simp_all add: env_hidden_def egl_env_ok_def numDevices_of_def MAX_DEVICES_def)
  from hidden_devices_out_of_range [of env_hidden 0 start vga]
       hidden_devices_out_of_range [of env_hidden 1 start vga] a
  show ?thesis by simp
qed

end
